theory Spec2Isabelle
  imports Complex_Main
begin

section \<open>Conventions\<close>

text \<open>
  The development embeds the geometry and view core of tatlin: \<^verbatim>\<open>libtatlin/vector.py\<close>,
  \<^verbatim>\<open>libtatlin/actors.py\<close> and \<^verbatim>\<open>libtatlin/views.py\<close>.

  \<^item> A vertex buffer is the array numpy makes of a list of rows, and is modelled by that
    list: a list of \<open>n \<ge> 1\<close> triples is an array (or, after a rotation, a matrix) of shape
    \<open>(n, 3)\<close>; the empty list is the array of shape \<open>(0,)\<close> that numpy makes of an empty
    list. Where numpy's broadcasting treats the two shapes differently, the model does too.
  \<^item> A float is the real number it denotes; infinities and NaN are no values of the model.
    Sums, products, minima and maxima are those of the reals, with one exception: the
    in-place product of \<^verbatim>\<open>StlModel.scale\<close>, on whose rounding a property of the
    program turns, is a parameter of the model (\<open>float_ops\<close>).
  \<^item> Python integers (buffer offsets, layer selectors) are \<^typ>\<open>int\<close>.
  \<^item> Every exception the modelled code can raise is a value of \<open>error\<close>; a function that
    can raise returns \<open>error + 'a\<close>, with \<open>Inl\<close> for the exception.
  \<^item> Calls into OpenGL are not modelled; a vertex buffer object is the array it is made of,
    and a drawing method returns the range it hands to \<^verbatim>\<open>glDrawArrays\<close>.
\<close>

datatype error = AssertionError | ValueError | IndexError | ZeroDivisionError | AttributeError

definition bind_err :: "error + 'a \<Rightarrow> ('a \<Rightarrow> error + 'b) \<Rightarrow> error + 'b" where
  "bind_err r f = (case r of Inl e \<Rightarrow> Inl e | Inr a \<Rightarrow> f a)"

text \<open>A loop whose body can raise: the first exception ends it.\<close>

fun fold_err :: "('s \<Rightarrow> 'a \<Rightarrow> error + 's) \<Rightarrow> 's \<Rightarrow> 'a list \<Rightarrow> error + 's" where
  "fold_err f s [] = Inr s"
| "fold_err f s (x # xs) = bind_err (f s x) (\<lambda>s'. fold_err f s' xs)"

section \<open>Vector math (vector.py)\<close>

type_synonym vertex = "real \<times> real \<times> real"

type_synonym matrix3 = "vertex \<times> vertex \<times> vertex"

definition vadd :: "vertex \<Rightarrow> vertex \<Rightarrow> vertex" where
  "vadd v w = (case v of (a, b, c) \<Rightarrow> case w of (x, y, z) \<Rightarrow> (a + x, b + y, c + z))"


text \<open>
  \<^verbatim>\<open>vertices + numpy.require([x, y, z], 'f')\<close>: the offset, an array of shape \<open>(3,)\<close>, is
  added to every row of a buffer of shape \<open>(n, 3)\<close>. Against the empty buffer, of shape
  \<open>(0,)\<close>, the shapes do not broadcast and numpy raises ValueError.
\<close>

definition translate :: "vertex list \<Rightarrow> real \<Rightarrow> real \<Rightarrow> real \<Rightarrow> error + vertex list" where
  "translate vertices x y z =
     (if vertices = [] then Inl ValueError
      else Inr (map (\<lambda>v. vadd v (x, y, z)) vertices))"

definition radians :: "real \<Rightarrow> real" where
  "radians angle = angle * pi / 180"

text \<open>The matrix that \<^verbatim>\<open>rotate\<close> builds, row by row, from the axis as supplied.\<close>

definition rotation_matrix :: "real \<Rightarrow> real \<Rightarrow> real \<Rightarrow> real \<Rightarrow> matrix3" where
  "rotation_matrix angle x y z =
     (let angle_r = radians angle;
          c = cos angle_r;
          s = sin angle_r;
          C = 1 - c
      in ((x ^ 2 * C + c,    x * y * C - z * s, x * z * C + y * s),
          (y * x * C + z * s, y ^ 2 * C + c,    y * z * C - x * s),
          (x * z * C - y * s, y * z * C + x * s, z ^ 2 * C + c)))"

text \<open>One row of \<^verbatim>\<open>vertices.dot(matrix)\<close>: a row vector times the matrix.\<close>

definition dot :: "vertex \<Rightarrow> matrix3 \<Rightarrow> vertex" where
  "dot v m =
     (case v of (a, b, c) \<Rightarrow>
      case m of ((m00, m01, m02), (m10, m11, m12), (m20, m21, m22)) \<Rightarrow>
        (a * m00 + b * m10 + c * m20,
         a * m01 + b * m11 + c * m21,
         a * m02 + b * m12 + c * m22))"

text \<open>
  \<^verbatim>\<open>vertices.dot(matrix)\<close>. On the empty buffer, of shape \<open>(0,)\<close>, the product with the
  3x3 matrix is not defined and numpy raises ValueError. Otherwise the result is a
  \<^verbatim>\<open>numpy.matrix\<close> of shape \<open>(n, 3)\<close>; the list holds its rows. (Iterating over a matrix
  yields each row as a matrix of shape \<open>(1, 3)\<close>, which matters where the rows are collected
  one by one: see \<open>add_arrays\<close>.)
\<close>

definition rotate ::
  "vertex list \<Rightarrow> real \<Rightarrow> real \<Rightarrow> real \<Rightarrow> real \<Rightarrow> error + vertex list" where
  "rotate vertices angle x y z =
     (if vertices = [] then Inl ValueError
      else Inr (map (\<lambda>v. dot v (rotation_matrix angle x y z)) vertices))"

section \<open>Movements and their colours (actors.py, GcodeModel)\<close>

text \<open>
  A movement is produced by the parser, outside this core. Its method \<^verbatim>\<open>angle()\<close> is
  the field \<open>angle\<close>, in degrees.
\<close>

record movement =
  point_a :: vertex
  point_b :: vertex
  extruder_on :: bool
  is_loop :: bool
  is_perimeter :: bool
  is_perimeter_outer :: bool
  angle :: real

type_synonym rgba = "real \<times> real \<times> real \<times> real"

datatype color_name = red | yellow | orange | green | cyan | gray

fun color_map :: "color_name \<Rightarrow> rgba" where
  "color_map red    = (1.0, 0.0, 0.0, 0.6)"
| "color_map yellow = (1.0, 0.875, 0.0, 0.6)"
| "color_map orange = (1.0, 0.373, 0.0, 0.6)"
| "color_map green  = (0.0, 1.0, 0.0, 0.6)"
| "color_map cyan   = (0.0, 0.875, 0.875, 0.6)"
| "color_map gray   = (0.6, 0.6, 0.6, 0.6)"

definition movement_color :: "movement \<Rightarrow> rgba" where
  "movement_color m =
     (if \<not> extruder_on m then color_map gray
      else if is_loop m then color_map yellow
      else if is_perimeter m \<and> is_perimeter_outer m then color_map cyan
      else if is_perimeter m then color_map green
      else color_map red)"

section \<open>Geometry models (actors.py)\<close>

record bounding_box =
  upper_corner :: vertex
  lower_corner :: vertex

text \<open>
  The class \<^verbatim>\<open>Model\<close>: the vertex buffer and the saved bounding box
  (\<^verbatim>\<open>self._bounding_box\<close>, \<open>None\<close> when absent). \<^verbatim>\<open>GcodeModel\<close> and
  \<^verbatim>\<open>StlModel\<close> extend it.
\<close>

record model =
  vertices :: "vertex list"
  bounding_box_cache :: "bounding_box option"

definition init_model_attributes :: "'a model_scheme \<Rightarrow> 'a model_scheme" where
  "init_model_attributes self = self\<lparr>bounding_box_cache := None\<rparr>"

text \<open>
  \<^verbatim>\<open>vertices.reshape(-1, order='F').reshape(3, -1)\<close> lists the buffer column by column
  and cuts the result into three rows: the x, the y and the z coordinates.
\<close>

definition xyz_rows :: "vertex list \<Rightarrow> real list \<times> real list \<times> real list" where
  "xyz_rows vs = (map fst vs, map (\<lambda>v. fst (snd v)) vs, map (\<lambda>v. snd (snd v)) vs)"

text \<open>numpy's \<^verbatim>\<open>min\<close> and \<^verbatim>\<open>max\<close> along a row; an empty row raises ValueError.\<close>

fun row_min :: "real list \<Rightarrow> error + real" where
  "row_min [] = Inl ValueError"
| "row_min (x # xs) = Inr (fold min xs x)"

fun row_max :: "real list \<Rightarrow> error + real" where
  "row_max [] = Inl ValueError"
| "row_max (x # xs) = Inr (fold max xs x)"

definition rows_min :: "real list \<times> real list \<times> real list \<Rightarrow> error + vertex" where
  "rows_min rows =
     (case rows of (xs, ys, zs) \<Rightarrow>
        bind_err (row_min xs) (\<lambda>a. bind_err (row_min ys) (\<lambda>b. bind_err (row_min zs) (\<lambda>c.
          Inr (a, b, c)))))"

definition rows_max :: "real list \<times> real list \<times> real list \<Rightarrow> error + vertex" where
  "rows_max rows =
     (case rows of (xs, ys, zs) \<Rightarrow>
        bind_err (row_max xs) (\<lambda>a. bind_err (row_max ys) (\<lambda>b. bind_err (row_max zs) (\<lambda>c.
          Inr (a, b, c)))))"

definition calculate_bounding_box :: "'a model_scheme \<Rightarrow> error + bounding_box" where
  "calculate_bounding_box self =
     (let rows = xyz_rows (vertices self) in
      bind_err (rows_min rows) (\<lambda>lower.
      bind_err (rows_max rows) (\<lambda>upper.
        Inr \<lparr>upper_corner = upper, lower_corner = lower\<rparr>)))"

text \<open>
  The property \<^verbatim>\<open>bounding_box\<close>: the box read, and the model with the box saved.
\<close>

definition bounding_box :: "'a model_scheme \<Rightarrow> error + (bounding_box \<times> 'a model_scheme)" where
  "bounding_box self =
     (case bounding_box_cache self of
        None \<Rightarrow>
          bind_err (calculate_bounding_box self) (\<lambda>box.
            Inr (box, self\<lparr>bounding_box_cache := Some box\<rparr>))
      | Some box \<Rightarrow> Inr (box, self))"

subsection \<open>GcodeModel\<close>

text \<open>
  The arrow buffer \<^verbatim>\<open>self.arrows\<close> is an array of three axes (see \<open>add_arrays\<close>): a list of
  rows, each a list of vertices. The four buffer objects exist once \<^verbatim>\<open>init\<close> has run;
  before, the attributes are absent (\<open>None\<close>).
\<close>

record gcode_model = model +
  colors :: "rgba list"
  arrows :: "vertex list list"
  layer_stops :: "int list"
  max_layers :: int
  num_layers_to_draw :: int
  arrows_enabled :: bool
  initialized :: bool
  vertex_buffer :: "vertex list option"
  vertex_color_buffer :: "rgba list option"
  arrow_buffer :: "vertex list list option"
  arrow_color_buffer :: "rgba list option"

text \<open>The class attribute \<^verbatim>\<open>GcodeModel.arrow\<close>.\<close>

definition arrow :: "vertex list" where
  "arrow = [(0.0, 0.0, 0.0), (0.4, -0.1, 0.0), (0.4, 0.1, 0.0)]"

text \<open>The four lists that the loops of \<^verbatim>\<open>create_vertex_arrays\<close> fill.\<close>

record build_state =
  vertex_list :: "vertex list"
  color_list :: "rgba list"
  stops :: "int list"
  arrow_list :: "vertex list"

text \<open>
  The body of the inner loop, for one movement. \<^verbatim>\<open>arrow_list.extend(arrow)\<close> appends the
  three rows of the rotated arrow, each of them a matrix of shape \<open>(1, 3)\<close>.
\<close>

definition add_movement :: "build_state \<Rightarrow> movement \<Rightarrow> error + build_state" where
  "add_movement s movement =
     (let s = s\<lparr>vertex_list := vertex_list s @ [point_a movement, point_b movement]\<rparr> in
      bind_err (rotate arrow (angle movement) 0.0 0.0 1.0) (\<lambda>rotated.
        Inr (s\<lparr>arrow_list := arrow_list s @ rotated,
                color_list := color_list s @ [movement_color movement]\<rparr>)))"

text \<open>The body of the outer loop, for one layer.\<close>

definition add_layer :: "build_state \<Rightarrow> movement list \<Rightarrow> error + build_state" where
  "add_layer s layer =
     bind_err (fold_err add_movement s layer) (\<lambda>s'.
       Inr (s'\<lparr>stops := stops s' @ [int (length (vertex_list s'))]\<rparr>))"

definition build_lists :: "movement list list \<Rightarrow> error + build_state" where
  "build_lists model_data =
     fold_err add_layer
       \<lparr>vertex_list = [], color_list = [], stops = [0], arrow_list = []\<rparr> model_data"

text \<open>\<^verbatim>\<open>vertices[1::2]\<close>: the rows at odd offsets.\<close>

fun odd_rows :: "'a list \<Rightarrow> 'a list" where
  "odd_rows (a # b # xs) = b # odd_rows xs"
| "odd_rows _ = []"

text \<open>\<^verbatim>\<open>.repeat(k, 0)\<close>: every row \<open>k\<close> times in a row.\<close>

definition repeat_rows :: "nat \<Rightarrow> 'a list \<Rightarrow> 'a list" where
  "repeat_rows k xs = concat (map (replicate k) xs)"

text \<open>
  \<^verbatim>\<open>self.arrows + self.vertices[1::2].repeat(3, 0)\<close>, from the two lists the arrays
  are made of.

  \<^item> \<^verbatim>\<open>numpy.array(arrow_list, 'f')\<close> has shape \<open>(k, 1, 3)\<close> for \<open>k \<ge> 1\<close> collected rows,
    since each is a matrix of shape \<open>(1, 3)\<close>, and shape \<open>(0,)\<close> for none.
  \<^item> \<^verbatim>\<open>numpy.array(vertex_list, 'f')\<close> has shape \<open>(n, 3)\<close> for \<open>n \<ge> 1\<close> rows and \<open>(0,)\<close>
    for none; its odd rows, repeated, have shape \<open>(3 * (n div 2), 3)\<close> or \<open>(0,)\<close>.
  \<^item> Shapes \<open>(k, 1, 3)\<close> and \<open>(j, 3)\<close> broadcast to \<open>(k, j, 3)\<close>: row \<open>i\<close> of the sum holds
    arrow row \<open>i\<close> added to every one of the \<open>j\<close> repeated end points. Two arrays of shape
    \<open>(0,)\<close> add up to one of shape \<open>(0,)\<close>. An array of shape \<open>(0,)\<close> and one whose last
    axis has length 3 do not broadcast: numpy raises ValueError.
\<close>

definition add_arrays :: "vertex list \<Rightarrow> vertex list \<Rightarrow> error + vertex list list" where
  "add_arrays arrow_rows vertex_rows =
     (if arrow_rows = [] \<and> vertex_rows = [] then Inr []
      else if arrow_rows = [] \<or> vertex_rows = [] then Inl ValueError
      else Inr (map (\<lambda>a. map (\<lambda>v. vadd a v) (repeat_rows 3 (odd_rows vertex_rows)))
                  arrow_rows))"

text \<open>
  The part of \<^verbatim>\<open>create_vertex_arrays\<close> after the loops: the arrows are moved to the
  end points of the movements, and the 2:3 ratio is asserted on \<^verbatim>\<open>len\<close> of the two
  arrays, their length along the first axis. A failed assertion leaves the constructor by
  an exception, so no model is returned.
\<close>

definition finish_arrays :: "gcode_model \<Rightarrow> build_state \<Rightarrow> error + gcode_model" where
  "finish_arrays self s =
     bind_err (add_arrays (arrow_list s) (vertex_list s)) (\<lambda>moved.
       if length moved = (length (vertex_list s) div 2) * 3
       then Inr (self\<lparr>vertices := vertex_list s, colors := color_list s,
                      arrows := moved, layer_stops := stops s\<rparr>)
       else Inl AssertionError)"

definition create_vertex_arrays :: "gcode_model \<Rightarrow> movement list list \<Rightarrow> error + gcode_model" where
  "create_vertex_arrays self model_data =
     bind_err (build_lists model_data) (finish_arrays self)"

text \<open>
  The object before \<^verbatim>\<open>create_vertex_arrays\<close> has run: \<^verbatim>\<open>Model.__init__\<close> has set the
  saved bounding box to \<open>None\<close>, and no other attribute is assigned yet (the other fields
  hold placeholders that the constructor overwrites).
\<close>

definition new_gcode_model :: gcode_model where
  "new_gcode_model =
     \<lparr>vertices = [], bounding_box_cache = None, colors = [], arrows = [], layer_stops = [],
      max_layers = 0, num_layers_to_draw = 0, arrows_enabled = False, initialized = False,
      vertex_buffer = None, vertex_color_buffer = None, arrow_buffer = None,
      arrow_color_buffer = None\<rparr>"

text \<open>\<^verbatim>\<open>GcodeModel.__init__\<close>.\<close>

definition GcodeModel :: "movement list list \<Rightarrow> error + gcode_model" where
  "GcodeModel model_data =
     bind_err (create_vertex_arrays new_gcode_model model_data) (\<lambda>self.
       Inr (self\<lparr>max_layers := int (length (layer_stops self)) - 1,
                 num_layers_to_draw := int (length (layer_stops self)) - 1,
                 arrows_enabled := True,
                 initialized := False\<rparr>))"

text \<open>
  \<^verbatim>\<open>GcodeModel.init\<close> makes the buffer objects; two vertices share a colour, and so do
  three arrow vertices.
\<close>

definition init :: "gcode_model \<Rightarrow> gcode_model" where
  "init self =
     (let self = self\<lparr>vertex_buffer := Some (vertices self),
                      vertex_color_buffer := Some (repeat_rows 2 (colors self))\<rparr>;
          self = (if arrows_enabled self
                  then self\<lparr>arrow_buffer := Some (arrows self),
                            arrow_color_buffer := Some (repeat_rows 3 (colors self))\<rparr>
                  else self)
      in self\<lparr>initialized := True\<rparr>)"

text \<open>Python's \<^verbatim>\<open>xs[i]\<close>: a negative index counts from the end.\<close>

definition py_index :: "'a list \<Rightarrow> int \<Rightarrow> error + 'a" where
  "py_index xs i =
     (if 0 \<le> i \<and> i < int (length xs) then Inr (xs ! nat i)
      else if i < 0 \<and> - int (length xs) \<le> i then Inr (xs ! nat (int (length xs) + i))
      else Inl IndexError)"

text \<open>
  \<^verbatim>\<open>_display_movements\<close> and \<^verbatim>\<open>_display_arrows\<close> bind their two buffer objects, which
  raises AttributeError when \<^verbatim>\<open>init\<close> has not made them, and then compute the offset
  and the count given to \<^verbatim>\<open>glDrawArrays\<close>.
\<close>

definition display_movements :: "gcode_model \<Rightarrow> bool \<Rightarrow> error + (int \<times> int)" where
  "display_movements self mode_2d =
     (if vertex_buffer self = None \<or> vertex_color_buffer self = None then Inl AttributeError
      else if mode_2d then
        bind_err (py_index (layer_stops self) (num_layers_to_draw self - 1)) (\<lambda>start.
        bind_err (py_index (layer_stops self) (num_layers_to_draw self)) (\<lambda>stop.
          Inr (start, stop - start)))
      else
        bind_err (py_index (layer_stops self) (num_layers_to_draw self)) (\<lambda>stop.
          Inr (0, stop)))"

definition display_arrows :: "gcode_model \<Rightarrow> error + (int \<times> int)" where
  "display_arrows self =
     (if arrow_buffer self = None \<or> arrow_color_buffer self = None then Inl AttributeError
      else
        bind_err (py_index (layer_stops self) (num_layers_to_draw self - 1)) (\<lambda>a.
        bind_err (py_index (layer_stops self) (num_layers_to_draw self)) (\<lambda>b.
          (let start = (a div 2) * 3; stop = (b div 2) * 3
           in Inr (start, stop - start)))))"

text \<open>
  \<^verbatim>\<open>GcodeModel.display\<close>: the movements, and the arrows when they are enabled. The result
  is the two ranges drawn.
\<close>

definition display ::
  "gcode_model \<Rightarrow> bool \<Rightarrow> error + ((int \<times> int) \<times> (int \<times> int) option)" where
  "display self mode_2d =
     bind_err (display_movements self mode_2d) (\<lambda>lines.
       if arrows_enabled self
       then bind_err (display_arrows self) (\<lambda>triangles. Inr (lines, Some triangles))
       else Inr (lines, None))"

subsection \<open>StlModel\<close>

record stl_model = model +
  normals :: "vertex list"
  scaling_factor :: real

text \<open>\<^verbatim>\<open>StlModel.__init__\<close>; the material and light settings are left out.\<close>

definition StlModel :: "vertex list \<times> vertex list \<Rightarrow> stl_model" where
  "StlModel model_data =
     (case model_data of (vs, ns) \<Rightarrow>
        \<lparr>vertices = vs, bounding_box_cache = None, normals = ns, scaling_factor = 1.0\<rparr>)"

text \<open>
  The two floating-point operations of \<^verbatim>\<open>StlModel.scale\<close>, as parameters of the model:
  \<open>fdiv a b\<close> is what Python's division of two floats returns for a divisor other than
  zero, and \<open>fmul32 c k\<close> is what numpy's in-place product leaves in a \<^verbatim>\<open>float32\<close> element
  \<open>c\<close> multiplied by the Python float \<open>k\<close>. Nothing is assumed of either.
\<close>

record float_ops =
  fdiv :: "real \<Rightarrow> real \<Rightarrow> real"
  fmul32 :: "real \<Rightarrow> real \<Rightarrow> real"

definition vmap :: "(real \<Rightarrow> real) \<Rightarrow> vertex \<Rightarrow> vertex" where
  "vmap f v = (case v of (a, b, c) \<Rightarrow> (f a, f b, f c))"

text \<open>
  \<^verbatim>\<open>StlModel.scale\<close>. The quotient \<^verbatim>\<open>factor / self.scaling_factor\<close> is a division of
  Python floats, which raises ZeroDivisionError when the scaling factor is zero; every
  coordinate is then multiplied in place by the quotient.
\<close>

definition scale :: "float_ops \<Rightarrow> stl_model \<Rightarrow> real \<Rightarrow> error + stl_model" where
  "scale ops self factor =
     (if factor \<noteq> scaling_factor self then
        (if scaling_factor self = 0 then Inl ZeroDivisionError
         else Inr (init_model_attributes
                (self\<lparr>vertices :=
                         map (vmap (\<lambda>c. fmul32 ops c (fdiv ops factor (scaling_factor self))))
                           (vertices self),
                       scaling_factor := factor\<rparr>)))
      else Inr self)"

definition StlModel_translate ::
  "stl_model \<Rightarrow> real \<Rightarrow> real \<Rightarrow> real \<Rightarrow> error + stl_model" where
  "StlModel_translate self x y z =
     bind_err (translate (vertices self) x y z) (\<lambda>moved.
       Inr (init_model_attributes (self\<lparr>vertices := moved\<rparr>)))"

definition StlModel_rotate ::
  "stl_model \<Rightarrow> real \<Rightarrow> real \<Rightarrow> real \<Rightarrow> real \<Rightarrow> error + stl_model" where
  "StlModel_rotate self ang x y z =
     bind_err (rotate (vertices self) ang x y z) (\<lambda>turned.
       Inr (init_model_attributes (self\<lparr>vertices := turned\<rparr>)))"

text \<open>The three mutation entry points of a mesh, as one call.\<close>

datatype mutation =
  Scale real
| Translate real real real
| Rotate real real real real

fun mutate :: "float_ops \<Rightarrow> stl_model \<Rightarrow> mutation \<Rightarrow> error + stl_model" where
  "mutate ops self (Scale factor) = scale ops self factor"
| "mutate ops self (Translate x y z) = StlModel_translate self x y z"
| "mutate ops self (Rotate ang x y z) = StlModel_rotate self ang x y z"

section \<open>View modes (views.py)\<close>

text \<open>
  A view object: its class (for the methods that \<^verbatim>\<open>View2D\<close> and \<^verbatim>\<open>View3D\<close> define
  differently), its numeric instance attributes by name (what \<^verbatim>\<open>getattr\<close> and
  \<^verbatim>\<open>setattr\<close> reach), \<^verbatim>\<open>self._stack\<close> and \<^verbatim>\<open>self._save_vars\<close>. The window size
  \<^verbatim>\<open>w\<close>, \<^verbatim>\<open>h\<close> of \<^verbatim>\<open>View2D\<close> is used by the projection set-up only and is left out.
\<close>

datatype view_class = View2D_class | View3D_class

record view_mode =
  view_class :: view_class
  attrs :: "string \<rightharpoonup> real"
  state_stack :: "real list"
  save_vars :: "string list"
  supports_ortho :: bool
  ortho :: bool

definition ZOOM_MIN :: real where
  "ZOOM_MIN = 0.1"

definition ZOOM_MAX :: real where
  "ZOOM_MAX = 1000"

definition PAN_FACTOR :: real where
  "PAN_FACTOR = 4"

definition getattr :: "view_mode \<Rightarrow> string \<Rightarrow> error + real" where
  "getattr self var = (case attrs self var of None \<Rightarrow> Inl AttributeError | Some r \<Rightarrow> Inr r)"

definition setattr :: "view_mode \<Rightarrow> string \<Rightarrow> real \<Rightarrow> view_mode" where
  "setattr self var r = self\<lparr>attrs := (attrs self)(var \<mapsto> r)\<rparr>"

text \<open>\<^verbatim>\<open>ViewMode.__init__\<close>.\<close>

definition ViewMode :: "view_class \<Rightarrow> view_mode" where
  "ViewMode c =
     \<lparr>view_class = c, attrs = Map.empty, state_stack = [], save_vars = [],
      supports_ortho = False, ortho = False\<rparr>"

text \<open>The loop of \<^verbatim>\<open>push_state\<close> over the names still to save.\<close>

fun push_vars :: "view_mode \<Rightarrow> string list \<Rightarrow> error + view_mode" where
  "push_vars self [] = Inr self"
| "push_vars self (var # vars) =
     bind_err (getattr self var) (\<lambda>r.
       push_vars (self\<lparr>state_stack := state_stack self @ [r]\<rparr>) vars)"

definition push_state :: "view_mode \<Rightarrow> error + view_mode" where
  "push_state self = push_vars self (save_vars self)"

text \<open>
  The loop of \<^verbatim>\<open>pop_state\<close> over the names still to restore; \<^verbatim>\<open>list.pop()\<close>
  raises IndexError on an empty stack.
\<close>

fun pop_vars :: "view_mode \<Rightarrow> string list \<Rightarrow> error + view_mode" where
  "pop_vars self [] = Inr self"
| "pop_vars self (var # vars) =
     (if state_stack self = [] then Inl IndexError
      else pop_vars
             (setattr (self\<lparr>state_stack := butlast (state_stack self)\<rparr>) var
                (last (state_stack self)))
             vars)"

definition pop_state :: "view_mode \<Rightarrow> error + view_mode" where
  "pop_state self = pop_vars self (rev (save_vars self))"

definition reset_state :: "view_mode \<Rightarrow> error + view_mode" where
  "reset_state self = bind_err (pop_state self) push_state"

definition zoom :: "view_mode \<Rightarrow> real \<Rightarrow> real \<Rightarrow> error + view_mode" where
  "zoom self delta_x delta_y =
     (if delta_y > 0 then
        bind_err (getattr self ''zoom_factor'') (\<lambda>zf.
          Inr (setattr self ''zoom_factor'' (min (zf * 1.2) ZOOM_MAX)))
      else if delta_y < 0 then
        bind_err (getattr self ''zoom_factor'') (\<lambda>zf.
          Inr (setattr self ''zoom_factor'' (max (zf * 0.83) ZOOM_MIN)))
      else Inr self)"

subsection \<open>View2D\<close>

definition View2D :: "error + view_mode" where
  "View2D =
     (let self = ViewMode View2D_class;
          self = setattr self ''x'' 0.0;
          self = setattr self ''y'' 0.0;
          self = setattr self ''z'' 0.0;
          self = setattr self ''zoom_factor'' 5.0;
          self = setattr self ''azimuth'' 0.0;
          self = self\<lparr>save_vars := save_vars self @
                   [''x'', ''y'', ''z'', ''zoom_factor'', ''azimuth'']\<rparr>
      in push_state self)"

definition View2D_rotate :: "view_mode \<Rightarrow> real \<Rightarrow> real \<Rightarrow> error + view_mode" where
  "View2D_rotate self delta_x delta_y =
     bind_err (getattr self ''azimuth'') (\<lambda>az.
       Inr (setattr self ''azimuth'' (az + delta_x)))"

definition View2D_pan :: "view_mode \<Rightarrow> real \<Rightarrow> real \<Rightarrow> error + view_mode" where
  "View2D_pan self delta_x delta_y =
     bind_err (getattr self ''x'') (\<lambda>x.
       let self = setattr self ''x'' (x + delta_x * PAN_FACTOR) in
       bind_err (getattr self ''y'') (\<lambda>y.
         Inr (setattr self ''y'' (y - delta_y * PAN_FACTOR))))"

subsection \<open>View3D\<close>

definition View3D :: "error + view_mode" where
  "View3D =
     (let self = ViewMode View3D_class;
          self = setattr self ''x'' 0.0;
          self = setattr self ''y'' 180.0;
          self = setattr self ''z'' (-20.0);
          self = setattr self ''zoom_factor'' 1.0;
          self = setattr self ''azimuth'' 0.0;
          self = setattr self ''elevation'' (-20.0);
          self = self\<lparr>supports_ortho := True, ortho := False\<rparr>;
          self = self\<lparr>save_vars := save_vars self @
                   [''x'', ''y'', ''z'', ''zoom_factor'', ''azimuth'', ''elevation'']\<rparr>
      in push_state self)"

definition View3D_rotate :: "view_mode \<Rightarrow> real \<Rightarrow> real \<Rightarrow> error + view_mode" where
  "View3D_rotate self delta_x delta_y =
     bind_err (getattr self ''azimuth'') (\<lambda>az.
       let self = setattr self ''azimuth'' (az + delta_x) in
       bind_err (getattr self ''elevation'') (\<lambda>el.
         Inr (setattr self ''elevation'' (el - delta_y))))"

text \<open>
  \<^verbatim>\<open>View3D.pan\<close> divides by the zoom factor: a zoom factor of zero raises
  ZeroDivisionError.
\<close>

definition View3D_pan :: "view_mode \<Rightarrow> real \<Rightarrow> real \<Rightarrow> error + view_mode" where
  "View3D_pan self delta_x delta_y =
     bind_err (getattr self ''x'') (\<lambda>x.
     bind_err (getattr self ''zoom_factor'') (\<lambda>zf.
       if zf = 0 then Inl ZeroDivisionError
       else
         let self = setattr self ''x'' (x + delta_x / zf) in
         bind_err (getattr self ''z'') (\<lambda>z.
         bind_err (getattr self ''zoom_factor'') (\<lambda>zf'.
           if zf' = 0 then Inl ZeroDivisionError
           else Inr (setattr self ''z'' (z - delta_y / zf'))))))"

subsection \<open>Method calls on a view of either class\<close>

definition view_rotate :: "view_mode \<Rightarrow> real \<Rightarrow> real \<Rightarrow> error + view_mode" where
  "view_rotate self delta_x delta_y =
     (case view_class self of
        View2D_class \<Rightarrow> View2D_rotate self delta_x delta_y
      | View3D_class \<Rightarrow> View3D_rotate self delta_x delta_y)"

definition view_pan :: "view_mode \<Rightarrow> real \<Rightarrow> real \<Rightarrow> error + view_mode" where
  "view_pan self delta_x delta_y =
     (case view_class self of
        View2D_class \<Rightarrow> View2D_pan self delta_x delta_y
      | View3D_class \<Rightarrow> View3D_pan self delta_x delta_y)"

text \<open>A camera gesture is one call of \<^verbatim>\<open>rotate\<close>, \<^verbatim>\<open>pan\<close> or \<^verbatim>\<open>zoom\<close>.\<close>

datatype gesture =
  RotateBy real real
| PanBy real real
| ZoomBy real real

fun call_gesture :: "view_mode \<Rightarrow> gesture \<Rightarrow> error + view_mode" where
  "call_gesture self (RotateBy delta_x delta_y) = view_rotate self delta_x delta_y"
| "call_gesture self (PanBy delta_x delta_y) = view_pan self delta_x delta_y"
| "call_gesture self (ZoomBy delta_x delta_y) = zoom self delta_x delta_y"

text \<open>A sequence of calls; an exception ends it.\<close>

fun gestures :: "view_mode \<Rightarrow> gesture list \<Rightarrow> error + view_mode" where
  "gestures self [] = Inr self"
| "gestures self (g # gs) = bind_err (call_gesture self g) (\<lambda>self'. gestures self' gs)"

fun zooms :: "view_mode \<Rightarrow> (real \<times> real) list \<Rightarrow> error + view_mode" where
  "zooms self [] = Inr self"
| "zooms self (d # ds) = bind_err (zoom self (fst d) (snd d)) (\<lambda>self'. zooms self' ds)"

section \<open>Verification: movement colours\<close>

text \<open>
  Claim C3. The colour of a movement is fixed by the first rule that matches, in this order:
  extruder off gives gray whatever the other flags are; otherwise a loop gives yellow;
  otherwise an outer perimeter gives cyan; otherwise a perimeter gives green; otherwise red.
  The five colours are pairwise different, so the rule that matched can be read off the
  colour.
\<close>

theorem movement_color_first_match:
  "(\<not> extruder_on m \<longrightarrow> movement_color m = color_map gray) \<and>
   (extruder_on m \<and> is_loop m \<longrightarrow> movement_color m = color_map yellow) \<and>
   (extruder_on m \<and> \<not> is_loop m \<and> is_perimeter m \<and> is_perimeter_outer m \<longrightarrow>
      movement_color m = color_map cyan) \<and>
   (extruder_on m \<and> \<not> is_loop m \<and> is_perimeter m \<and> \<not> is_perimeter_outer m \<longrightarrow>
      movement_color m = color_map green) \<and>
   (extruder_on m \<and> \<not> is_loop m \<and> \<not> is_perimeter m \<longrightarrow> movement_color m = color_map red) \<and>
   distinct [color_map gray, color_map yellow, color_map cyan, color_map green, color_map red]"
  by (simp add: movement_color_def)

theorem movement_color_first_match_witness:
  "movement_color \<lparr>point_a = (0, 0, 0), point_b = (1, 0, 0), extruder_on = False,
      is_loop = True, is_perimeter = True, is_perimeter_outer = True, angle = 0\<rparr>
     = (0.6, 0.6, 0.6, 0.6) \<and>
   movement_color \<lparr>point_a = (0, 0, 0), point_b = (1, 0, 0), extruder_on = True,
      is_loop = True, is_perimeter = True, is_perimeter_outer = True, angle = 0\<rparr>
     = (1.0, 0.875, 0.0, 0.6) \<and>
   movement_color \<lparr>point_a = (0, 0, 0), point_b = (1, 0, 0), extruder_on = True,
      is_loop = False, is_perimeter = True, is_perimeter_outer = True, angle = 0\<rparr>
     = (0.0, 0.875, 0.875, 0.6) \<and>
   movement_color \<lparr>point_a = (0, 0, 0), point_b = (1, 0, 0), extruder_on = True,
      is_loop = False, is_perimeter = True, is_perimeter_outer = False, angle = 0\<rparr>
     = (0.0, 1.0, 0.0, 0.6) \<and>
   movement_color \<lparr>point_a = (0, 0, 0), point_b = (1, 0, 0), extruder_on = True,
      is_loop = False, is_perimeter = False, is_perimeter_outer = True, angle = 0\<rparr>
     = (1.0, 0.0, 0.0, 0.6)"
  using
    movement_color_first_match [of "\<lparr>point_a = (0, 0, 0), point_b = (1, 0, 0),
      extruder_on = False, is_loop = True, is_perimeter = True, is_perimeter_outer = True,
      angle = 0\<rparr>"]
    movement_color_first_match [of "\<lparr>point_a = (0, 0, 0), point_b = (1, 0, 0),
      extruder_on = True, is_loop = True, is_perimeter = True, is_perimeter_outer = True,
      angle = 0\<rparr>"]
    movement_color_first_match [of "\<lparr>point_a = (0, 0, 0), point_b = (1, 0, 0),
      extruder_on = True, is_loop = False, is_perimeter = True, is_perimeter_outer = True,
      angle = 0\<rparr>"]
    movement_color_first_match [of "\<lparr>point_a = (0, 0, 0), point_b = (1, 0, 0),
      extruder_on = True, is_loop = False, is_perimeter = True, is_perimeter_outer = False,
      angle = 0\<rparr>"]
    movement_color_first_match [of "\<lparr>point_a = (0, 0, 0), point_b = (1, 0, 0),
      extruder_on = True, is_loop = False, is_perimeter = False, is_perimeter_outer = True,
      angle = 0\<rparr>"]
  by simp

section \<open>Verification: zooming\<close>

lemma sgn_same:
  "sgn (a::real) = sgn b \<Longrightarrow> (0 < a \<and> 0 < b) \<or> (a < 0 \<and> b < 0) \<or> (a = 0 \<and> b = 0)"
  by (simp add: sgn_if split: if_splits)

text \<open>What a call of \<open>zoom\<close> leaves in the attribute \<open>zoom_factor\<close>.\<close>

lemma zoom_result_factor:
  "map_sum id (\<lambda>v. attrs v ''zoom_factor'') (zoom self delta_x delta_y) =
     (case attrs self ''zoom_factor'' of
        None \<Rightarrow> (if delta_y = 0 then Inr None else Inl AttributeError)
      | Some zf \<Rightarrow>
          Inr (Some (if delta_y > 0 then min (zf * 1.2) ZOOM_MAX
                     else if delta_y < 0 then max (zf * 0.83) ZOOM_MIN else zf)))"
  by (simp add: zoom_def getattr_def setattr_def bind_err_def split: option.splits)

text \<open>
  Claim C10. The outcome of \<open>zoom self delta_x delta_y\<close> does not depend on \<open>delta_x\<close>:
  two calls that differ only in \<open>delta_x\<close> give the same state, and so do two calls whose
  \<open>delta_y\<close> have the same sign. A call with \<open>delta_y = 0\<close> returns the state unchanged. The
  zoom factor after the call depends only on the zoom factor before it and on the sign of
  \<open>delta_y\<close>, also across two different views.
\<close>

theorem zoom_depends_on_sign_only:
  "zoom self delta_x delta_y = zoom self delta_x' delta_y \<and>
   zoom self delta_x 0 = Inr self \<and>
   (sgn delta_y = sgn delta_y' \<longrightarrow> zoom self delta_x delta_y = zoom self delta_x' delta_y') \<and>
   (attrs self ''zoom_factor'' = attrs other ''zoom_factor'' \<and> sgn delta_y = sgn delta_y' \<longrightarrow>
      map_sum id (\<lambda>v. attrs v ''zoom_factor'') (zoom self delta_x delta_y) =
      map_sum id (\<lambda>v. attrs v ''zoom_factor'') (zoom other delta_x' delta_y'))"
proof (intro conjI impI)
  show "zoom self delta_x delta_y = zoom self delta_x' delta_y"
    by (simp add: zoom_def)
  show "zoom self delta_x 0 = Inr self"
    by (simp add: zoom_def)
  show "zoom self delta_x delta_y = zoom self delta_x' delta_y'"
    if "sgn delta_y = sgn delta_y'"
    using sgn_same [OF that] by (elim disjE conjE) (simp_all add: zoom_def)
  show "map_sum id (\<lambda>v. attrs v ''zoom_factor'') (zoom self delta_x delta_y) =
    map_sum id (\<lambda>v. attrs v ''zoom_factor'') (zoom other delta_x' delta_y')"
    if h: "attrs self ''zoom_factor'' = attrs other ''zoom_factor'' \<and> sgn delta_y = sgn delta_y'"
  proof -
    from h have s: "sgn delta_y = sgn delta_y'"
      and a: "attrs self ''zoom_factor'' = attrs other ''zoom_factor''"
      by simp_all
    show ?thesis
      using sgn_same [OF s]
      by (elim disjE conjE) (simp_all add: zoom_result_factor a split: option.split)
  qed
qed

theorem zoom_depends_on_sign_only_witness:
  "zoom (setattr (ViewMode View2D_class) ''zoom_factor'' 5) 3 2 =
     zoom (setattr (ViewMode View2D_class) ''zoom_factor'' 5) (-7) 9 \<and>
   zoom (setattr (ViewMode View2D_class) ''zoom_factor'' 5) 3 0 =
     Inr (setattr (ViewMode View2D_class) ''zoom_factor'' 5) \<and>
   map_sum id (\<lambda>v. attrs v ''zoom_factor'')
     (zoom (setattr (ViewMode View2D_class) ''zoom_factor'' 5) 3 2) = Inr (Some 6)"
proof -
  have s: "sgn (2::real) = sgn 9" by simp
  have "zoom (setattr (ViewMode View2D_class) ''zoom_factor'' 5) 3 2 =
     zoom (setattr (ViewMode View2D_class) ''zoom_factor'' 5) (-7) 9"
    using zoom_depends_on_sign_only
      [of "setattr (ViewMode View2D_class) ''zoom_factor'' 5" 3 2 "-7" 9] s
    by blast
  moreover have "zoom (setattr (ViewMode View2D_class) ''zoom_factor'' 5) 3 0 =
     Inr (setattr (ViewMode View2D_class) ''zoom_factor'' 5)"
    using zoom_depends_on_sign_only
      [of "setattr (ViewMode View2D_class) ''zoom_factor'' 5" 3 0] by blast
  moreover have "map_sum id (\<lambda>v. attrs v ''zoom_factor'')
     (zoom (setattr (ViewMode View2D_class) ''zoom_factor'' 5) 3 2) = Inr (Some 6)"
    by (simp add: zoom_result_factor setattr_def ViewMode_def ZOOM_MAX_def)
  ultimately show ?thesis by blast
qed

text \<open>One call of \<open>zoom\<close> keeps the factor between the two bounds.\<close>

lemma zoom_keeps_range:
  assumes "attrs self ''zoom_factor'' = Some zf" "ZOOM_MIN \<le> zf" "zf \<le> ZOOM_MAX"
  shows "\<exists>self' zf'. zoom self delta_x delta_y = Inr self' \<and>
           attrs self' ''zoom_factor'' = Some zf' \<and> ZOOM_MIN \<le> zf' \<and> zf' \<le> ZOOM_MAX"
proof -
  consider "0 < delta_y" | "delta_y < 0" | "delta_y = 0" by linarith
  then show ?thesis
  proof cases
    case 1
    have "ZOOM_MIN \<le> min (zf * 1.2) ZOOM_MAX"
      using assms by (simp add: ZOOM_MIN_def ZOOM_MAX_def)
    with 1 assms show ?thesis
      by (simp add: zoom_def getattr_def setattr_def bind_err_def)
  next
    case 2
    have "max (zf * 0.83) ZOOM_MIN \<le> ZOOM_MAX"
      using assms by (simp add: ZOOM_MIN_def ZOOM_MAX_def)
    with 2 assms show ?thesis
      by (simp add: zoom_def getattr_def setattr_def bind_err_def)
  next
    case 3
    with assms show ?thesis by (simp add: zoom_def)
  qed
qed

lemma zooms_keep_range:
  "attrs self ''zoom_factor'' = Some zf \<Longrightarrow> ZOOM_MIN \<le> zf \<Longrightarrow> zf \<le> ZOOM_MAX \<Longrightarrow>
   \<exists>self' zf'. zooms self ds = Inr self' \<and>
      attrs self' ''zoom_factor'' = Some zf' \<and> ZOOM_MIN \<le> zf' \<and> zf' \<le> ZOOM_MAX"
proof (induction ds arbitrary: self zf)
  case Nil
  then show ?case by simp
next
  case (Cons d ds)
  from zoom_keeps_range [OF Cons.prems, of "fst d" "snd d"]
  obtain self1 zf1 where z: "zoom self (fst d) (snd d) = Inr self1"
    and a: "attrs self1 ''zoom_factor'' = Some zf1" and r: "ZOOM_MIN \<le> zf1" "zf1 \<le> ZOOM_MAX"
    by blast
  from Cons.IH [OF a r] z show ?case
    by (simp add: bind_err_def)
qed

text \<open>
  Claim C6. A view whose zoom factor lies in \<open>[0.1, 1000]\<close> keeps it there through any
  sequence of \<open>zoom\<close> calls, none of which fails. One step in multiplies the factor by
  1.2 and caps it at 1000; one step out multiplies it by 0.83 and floors it at 0.1.
\<close>

theorem zoom_factor_stays_clamped:
  assumes "attrs self ''zoom_factor'' = Some zf" and "0.1 \<le> zf" and "zf \<le> 1000"
  shows "(\<exists>self' zf'. zooms self ds = Inr self' \<and>
            attrs self' ''zoom_factor'' = Some zf' \<and> 0.1 \<le> zf' \<and> zf' \<le> 1000) \<and>
         (0 < delta_y \<longrightarrow>
            map_sum id (\<lambda>v. attrs v ''zoom_factor'') (zoom self delta_x delta_y) =
              Inr (Some (min (zf * 1.2) 1000))) \<and>
         (delta_y < 0 \<longrightarrow>
            map_sum id (\<lambda>v. attrs v ''zoom_factor'') (zoom self delta_x delta_y) =
              Inr (Some (max (zf * 0.83) 0.1)))"
proof (intro conjI impI)
  show "\<exists>self' zf'. zooms self ds = Inr self' \<and>
            attrs self' ''zoom_factor'' = Some zf' \<and> 0.1 \<le> zf' \<and> zf' \<le> 1000"
    using zooms_keep_range [of self zf ds] assms by (simp add: ZOOM_MIN_def ZOOM_MAX_def)
  show "map_sum id (\<lambda>v. attrs v ''zoom_factor'') (zoom self delta_x delta_y) =
              Inr (Some (min (zf * 1.2) 1000))" if "0 < delta_y"
    using that assms(1) by (simp add: zoom_result_factor ZOOM_MAX_def)
  show "map_sum id (\<lambda>v. attrs v ''zoom_factor'') (zoom self delta_x delta_y) =
              Inr (Some (max (zf * 0.83) 0.1))" if "delta_y < 0"
    using that assms(1) by (simp add: zoom_result_factor ZOOM_MIN_def)
qed

theorem zoom_factor_stays_clamped_witness:
  "attrs (setattr (ViewMode View3D_class) ''zoom_factor'' 900) ''zoom_factor'' = Some 900 \<and>
   (0.1::real) \<le> 900 \<and> (900::real) \<le> 1000 \<and>
   (\<exists>self' zf'.
        zooms (setattr (ViewMode View3D_class) ''zoom_factor'' 900) [(0, 1), (0, 1), (5, -1)]
          = Inr self' \<and>
        attrs self' ''zoom_factor'' = Some zf' \<and> 0.1 \<le> zf' \<and> zf' \<le> 1000) \<and>
   map_sum id (\<lambda>v. attrs v ''zoom_factor'')
     (zoom (setattr (ViewMode View3D_class) ''zoom_factor'' 900) 0 1) = Inr (Some 1000) \<and>
   map_sum id (\<lambda>v. attrs v ''zoom_factor'')
     (zoom (setattr (ViewMode View3D_class) ''zoom_factor'' 900) 0 (-1)) = Inr (Some 747)"
proof -
  have a: "attrs (setattr (ViewMode View3D_class) ''zoom_factor'' 900) ''zoom_factor'' = Some 900"
    by (simp add: setattr_def)
  show ?thesis
    using a zoom_factor_stays_clamped [OF a, of "[(0, 1), (0, 1), (5, -1)]" 1 0]
      zoom_factor_stays_clamped [OF a, of "[]" "-1" 0]
    by simp
qed

section \<open>Verification: saving and restoring the view state\<close>

text \<open>The names that the constructor of each class puts into \<open>save_vars\<close>.\<close>

definition tracked :: "view_class \<Rightarrow> string list" where
  "tracked c =
     (case c of
        View2D_class \<Rightarrow> [''x'', ''y'', ''z'', ''zoom_factor'', ''azimuth'']
      | View3D_class \<Rightarrow> [''x'', ''y'', ''z'', ''zoom_factor'', ''azimuth'', ''elevation''])"

text \<open>
  What the constructors establish and every method keeps: the saved names are those of the
  class, each of them is an attribute of the object, and a perspective view has a zoom factor
  other than zero (\<open>View3D_pan\<close> divides by it).
\<close>

definition constructed :: "view_mode \<Rightarrow> bool" where
  "constructed self \<longleftrightarrow>
     save_vars self = tracked (view_class self) \<and>
     list_all (\<lambda>var. attrs self var \<noteq> None) (tracked (view_class self)) \<and>
     (view_class self = View2D_class \<or> attrs self ''zoom_factor'' \<noteq> Some 0)"

text \<open>\<open>push_state\<close> appends the values of the saved names, in their order.\<close>

lemma push_vars_defined:
  "list_all (\<lambda>var. attrs self var \<noteq> None) vars \<Longrightarrow>
   push_vars self vars =
     Inr (self\<lparr>state_stack := state_stack self @ map (\<lambda>var. the (attrs self var)) vars\<rparr>)"
proof (induction vars arbitrary: self)
  case Nil
  then show ?case by simp
next
  case (Cons var vars)
  then obtain r where r: "attrs self var = Some r" by auto
  have "list_all (\<lambda>v. attrs (self\<lparr>state_stack := state_stack self @ [r]\<rparr>) v \<noteq> None) vars"
    using Cons.prems by simp
  from Cons.IH [OF this] r show ?case
    by (simp add: getattr_def bind_err_def)
qed

text \<open>\<open>pop_state\<close> takes the values back from the end of the stack.\<close>

lemma pop_vars_stack:
  "length vals = length vars \<Longrightarrow> state_stack self = st @ rev vals \<Longrightarrow>
   pop_vars self vars = Inr (self\<lparr>state_stack := st, attrs := (attrs self)(vars [\<mapsto>] vals)\<rparr>)"
proof (induction vars arbitrary: self vals)
  case Nil
  then show ?case by simp
next
  case (Cons var vars)
  then obtain v vs where vals: "vals = v # vs" by (cases vals) auto
  define nxt where "nxt = self\<lparr>state_stack := st @ rev vs, attrs := (attrs self)(var \<mapsto> v)\<rparr>"
  have st: "state_stack self = (st @ rev vs) @ [v]" using Cons.prems vals by simp
  have l: "length vs = length vars" using Cons.prems vals by simp
  have step: "pop_vars self (var # vars) = pop_vars nxt vars"
    unfolding nxt_def pop_vars.simps setattr_def st by (simp add: butlast_append)
  have s: "state_stack nxt = st @ rev vs" by (simp add: nxt_def)
  have "pop_vars nxt vars = Inr (nxt\<lparr>state_stack := st, attrs := (attrs nxt)(vars [\<mapsto>] vs)\<rparr>)"
    by (rule Cons.IH [OF l s])
  also have "nxt\<lparr>state_stack := st, attrs := (attrs nxt)(vars [\<mapsto>] vs)\<rparr> =
      self\<lparr>state_stack := st, attrs := (attrs self)(var # vars [\<mapsto>] vals)\<rparr>"
    by (simp add: nxt_def vals)
  finally show ?case using step by simp
qed

lemma map_upds_same:
  "x \<in> set xs \<Longrightarrow> (m(xs [\<mapsto>] map f xs)) x = Some (f x)"
proof (induction xs arbitrary: m)
  case Nil
  then show ?case by simp
next
  case (Cons a xs)
  show ?case
  proof (cases "x \<in> set xs")
    case True
    then show ?thesis using Cons.IH by simp
  next
    case False
    with Cons.prems have "x = a" by simp
    with False show ?thesis by (simp add: map_upds_apply_nontin)
  qed
qed


lemma constructed_attrs:
  "constructed self \<Longrightarrow>
     (\<exists>x y z zf az. attrs self ''x'' = Some x \<and> attrs self ''y'' = Some y \<and>
        attrs self ''z'' = Some z \<and> attrs self ''zoom_factor'' = Some zf \<and>
        attrs self ''azimuth'' = Some az \<and> (view_class self = View3D_class \<longrightarrow> zf \<noteq> 0)) \<and>
     (view_class self = View3D_class \<longrightarrow> (\<exists>el. attrs self ''elevation'' = Some el))"
  by (cases "view_class self") (auto simp add: constructed_def tracked_def)

text \<open>Two states of one view with the same stack, saved names and class.\<close>

definition same_frame :: "view_mode \<Rightarrow> view_mode \<Rightarrow> bool" where
  "same_frame self self' \<longleftrightarrow>
     state_stack self' = state_stack self \<and> save_vars self' = save_vars self \<and>
     view_class self' = view_class self"

lemma setattr_constructed:
  "constructed self \<Longrightarrow>
   (var = ''zoom_factor'' \<and> view_class self = View3D_class \<longrightarrow> r \<noteq> 0) \<Longrightarrow>
   constructed (setattr self var r) \<and> same_frame self (setattr self var r)"
  by (cases "view_class self")
     (auto simp add: constructed_def tracked_def setattr_def same_frame_def)

lemma same_frame_trans:
  "same_frame a b \<Longrightarrow> same_frame b c \<Longrightarrow> same_frame a c"
  by (simp add: same_frame_def)

lemma zoom_constructed:
  assumes "constructed self"
  shows "\<exists>self'. zoom self delta_x delta_y = Inr self' \<and> constructed self' \<and> same_frame self self'"
proof -
  from constructed_attrs [OF assms] obtain zf where zf: "attrs self ''zoom_factor'' = Some zf"
    and nz: "view_class self = View3D_class \<longrightarrow> zf \<noteq> 0" by blast
  have a: "view_class self = View3D_class \<longrightarrow> min (zf * 1.2) ZOOM_MAX \<noteq> 0"
    using nz by (auto simp add: ZOOM_MAX_def min_def)
  have b: "max (zf * 0.83) ZOOM_MIN \<noteq> 0"
    by (simp add: ZOOM_MIN_def max_def)
  consider "0 < delta_y" | "delta_y < 0" | "delta_y = 0" by linarith
  then show ?thesis
  proof cases
    case 1
    then show ?thesis
      using setattr_constructed [OF assms, of "''zoom_factor''" "min (zf * 1.2) ZOOM_MAX"] a zf
      by (simp add: zoom_def getattr_def bind_err_def)
  next
    case 2
    then show ?thesis
      using setattr_constructed [OF assms, of "''zoom_factor''" "max (zf * 0.83) ZOOM_MIN"] b zf
      by (simp add: zoom_def getattr_def bind_err_def)
  next
    case 3
    then show ?thesis using assms by (simp add: zoom_def same_frame_def)
  qed
qed

lemma rotate_constructed:
  assumes "constructed self"
  shows "\<exists>self'. view_rotate self delta_x delta_y = Inr self' \<and> constructed self' \<and> same_frame self self'"
proof (cases "view_class self")
  case View2D_class
  from constructed_attrs [OF assms] obtain az where az: "attrs self ''azimuth'' = Some az" by blast
  show ?thesis
    using setattr_constructed [OF assms, of "''azimuth''" "az + delta_x"] az View2D_class
    by (simp add: view_rotate_def View2D_rotate_def getattr_def bind_err_def)
next
  case View3D_class
  from constructed_attrs [OF assms] View3D_class
  obtain az el where az: "attrs self ''azimuth'' = Some az" and el: "attrs self ''elevation'' = Some el"
    by blast
  define s1 where "s1 = setattr self ''azimuth'' (az + delta_x)"
  have c1: "constructed s1" and f1: "same_frame self s1"
    using setattr_constructed [OF assms, of "''azimuth''" "az + delta_x"] by (simp_all add: s1_def)
  have el1: "attrs s1 ''elevation'' = Some el" using el by (simp add: s1_def setattr_def)
  have c2: "constructed (setattr s1 ''elevation'' (el - delta_y))"
    and f2: "same_frame s1 (setattr s1 ''elevation'' (el - delta_y))"
    using setattr_constructed [OF c1, of "''elevation''" "el - delta_y"] by simp_all
  have "view_rotate self delta_x delta_y = Inr (setattr s1 ''elevation'' (el - delta_y))"
    using az el1 View3D_class
    by (simp add: view_rotate_def View3D_rotate_def getattr_def bind_err_def s1_def [symmetric])
  with c2 same_frame_trans [OF f1 f2] show ?thesis by blast
qed

lemma pan_constructed:
  assumes "constructed self"
  shows "\<exists>self'. view_pan self delta_x delta_y = Inr self' \<and> constructed self' \<and> same_frame self self'"
proof (cases "view_class self")
  case View2D_class
  from constructed_attrs [OF assms]
  obtain x y where x: "attrs self ''x'' = Some x" and y: "attrs self ''y'' = Some y" by blast
  define s1 where "s1 = setattr self ''x'' (x + delta_x * PAN_FACTOR)"
  have c1: "constructed s1" and f1: "same_frame self s1"
    using setattr_constructed [OF assms, of "''x''" "x + delta_x * PAN_FACTOR"] by (simp_all add: s1_def)
  have y1: "attrs s1 ''y'' = Some y" using y by (simp add: s1_def setattr_def)
  have c2: "constructed (setattr s1 ''y'' (y - delta_y * PAN_FACTOR))"
    and f2: "same_frame s1 (setattr s1 ''y'' (y - delta_y * PAN_FACTOR))"
    using setattr_constructed [OF c1, of "''y''" "y - delta_y * PAN_FACTOR"] by simp_all
  have "view_pan self delta_x delta_y = Inr (setattr s1 ''y'' (y - delta_y * PAN_FACTOR))"
    using x y1 View2D_class
    by (simp add: view_pan_def View2D_pan_def getattr_def bind_err_def s1_def [symmetric])
  with c2 same_frame_trans [OF f1 f2] show ?thesis by blast
next
  case View3D_class
  from constructed_attrs [OF assms] View3D_class
  obtain x z zf where x: "attrs self ''x'' = Some x" and z: "attrs self ''z'' = Some z"
    and zf: "attrs self ''zoom_factor'' = Some zf" and nz: "zf \<noteq> 0"
    by blast
  define s1 where "s1 = setattr self ''x'' (x + delta_x / zf)"
  have c1: "constructed s1" and f1: "same_frame self s1"
    using setattr_constructed [OF assms, of "''x''" "x + delta_x / zf"] by (simp_all add: s1_def)
  have z1: "attrs s1 ''z'' = Some z" and zf1: "attrs s1 ''zoom_factor'' = Some zf"
    using z zf by (simp_all add: s1_def setattr_def)
  have c2: "constructed (setattr s1 ''z'' (z - delta_y / zf))"
    and f2: "same_frame s1 (setattr s1 ''z'' (z - delta_y / zf))"
    using setattr_constructed [OF c1, of "''z''" "z - delta_y / zf"] by simp_all
  have "view_pan self delta_x delta_y = Inr (setattr s1 ''z'' (z - delta_y / zf))"
    using x zf nz z1 zf1 View3D_class
    by (simp add: view_pan_def View3D_pan_def getattr_def bind_err_def s1_def [symmetric])
  with c2 same_frame_trans [OF f1 f2] show ?thesis by blast
qed

lemma call_gesture_constructed:
  "constructed self \<Longrightarrow>
   \<exists>self'. call_gesture self g = Inr self' \<and> constructed self' \<and> same_frame self self'"
  by (cases g) (simp_all add: rotate_constructed pan_constructed zoom_constructed)

lemma gestures_constructed:
  "constructed self \<Longrightarrow>
   \<exists>self'. gestures self gs = Inr self' \<and> constructed self' \<and> same_frame self self'"
proof (induction gs arbitrary: self)
  case Nil
  then show ?case by (simp add: same_frame_def)
next
  case (Cons g gs)
  from call_gesture_constructed [OF Cons.prems, of g]
  obtain s1 where g: "call_gesture self g = Inr s1" and c1: "constructed s1" and f1: "same_frame self s1"
    by blast
  from Cons.IH [OF c1]
  obtain s2 where gs: "gestures s1 gs = Inr s2" and c2: "constructed s2" and f2: "same_frame s1 s2"
    by blast
  from g gs c2 same_frame_trans [OF f1 f2] show ?case
    by (simp add: bind_err_def)
qed


lemma constructed_stack_irrelevant:
  "constructed self \<Longrightarrow> constructed (self\<lparr>state_stack := st\<rparr>)"
  by (simp add: constructed_def)

text \<open>
  Claim C7. Take a view of either class in a state that the constructors establish and that
  \<open>rotate\<close>, \<open>pan\<close> and \<open>zoom\<close> keep (\<open>constructed\<close>). After \<open>push_state\<close> and any
  sequence of \<open>rotate\<close>, \<open>pan\<close> and \<open>zoom\<close> calls, none of which fails,
  \<open>reset_state\<close> succeeds and gives every tracked parameter (x, y, z, zoom factor, azimuth,
  and elevation for the perspective view) the value it had at the \<open>push_state\<close>. The
  stack after the reset is the stack after the \<open>push_state\<close>, so its depth is unchanged
  and the same baseline serves the next reset.
\<close>

theorem reset_state_restores_pushed:
  assumes "constructed self"
  shows "\<exists>pushed moved restored.
           push_state self = Inr pushed \<and>
           gestures pushed gs = Inr moved \<and>
           reset_state moved = Inr restored \<and>
           (\<forall>var \<in> set (tracked (view_class self)). attrs restored var = attrs self var) \<and>
           length (state_stack restored) = length (state_stack moved) \<and>
           state_stack restored = state_stack pushed"
proof -
  define vars where "vars = tracked (view_class self)"
  define f where "f = (\<lambda>var. the (attrs self var))"
  define pushed where "pushed = self\<lparr>state_stack := state_stack self @ map f vars\<rparr>"
  have sv: "save_vars self = vars"
    and defined: "list_all (\<lambda>var. attrs self var \<noteq> None) vars"
    using assms by (simp_all add: constructed_def vars_def)
  have push: "push_state self = Inr pushed"
    using push_vars_defined [OF defined] by (simp add: push_state_def sv pushed_def f_def)
  have "constructed pushed"
    unfolding pushed_def by (rule constructed_stack_irrelevant [OF assms])
  from gestures_constructed [OF this, of gs]
  obtain moved where moved: "gestures pushed gs = Inr moved"
    and cm: "constructed moved" and fm: "same_frame pushed moved"
    by blast
  have stack_m: "state_stack moved = state_stack self @ rev (map f (rev vars))"
    and sv_m: "save_vars moved = vars"
    and vc_m: "view_class moved = view_class self"
    using fm by (simp_all add: same_frame_def pushed_def sv rev_map)
  define popped where
    "popped = moved\<lparr>state_stack := state_stack self,
                     attrs := (attrs moved)(rev vars [\<mapsto>] map f (rev vars))\<rparr>"
  have pop: "pop_state moved = Inr popped"
    using pop_vars_stack [OF _ stack_m, of "rev vars"]
    by (simp add: pop_state_def sv_m popped_def)
  have restored_attr: "attrs popped var = attrs self var" if "var \<in> set vars" for var
  proof -
    from that defined obtain r where r: "attrs self var = Some r"
      by (auto simp add: list_all_iff)
    have "attrs popped var = Some (f var)"
      using map_upds_same [of var "rev vars" "attrs moved" f] that by (simp add: popped_def)
    with r show ?thesis by (simp add: f_def)
  qed
  have defined_p: "list_all (\<lambda>var. attrs popped var \<noteq> None) vars"
    using defined restored_attr by (simp add: list_all_iff)
  have same_vals: "map (\<lambda>var. the (attrs popped var)) vars = map f vars"
    using restored_attr by (simp add: f_def)
  define restored where "restored = popped\<lparr>state_stack := state_stack self @ map f vars\<rparr>"
  have "push_state popped = Inr restored"
    using push_vars_defined [OF defined_p] same_vals
    by (simp add: push_state_def popped_def sv_m restored_def)
  with pop have reset: "reset_state moved = Inr restored"
    by (simp add: reset_state_def bind_err_def)
  have a: "\<forall>var \<in> set (tracked (view_class self)). attrs restored var = attrs self var"
    using restored_attr by (simp add: restored_def vars_def)
  have b: "state_stack restored = state_stack pushed"
    by (simp add: restored_def pushed_def)
  have c: "length (state_stack restored) = length (state_stack moved)"
    using stack_m by (simp add: restored_def)
  from push moved reset a b c show ?thesis by blast
qed

text \<open>The two constructors succeed and establish \<open>constructed\<close>.\<close>

lemma View2D_constructed:
  "\<exists>self. View2D = Inr self \<and> constructed self \<and> view_class self = View2D_class \<and>
     state_stack self = [0, 0, 0, 5, 0] \<and> attrs self ''x'' = Some 0 \<and> attrs self ''y'' = Some 0 \<and>
     attrs self ''z'' = Some 0 \<and> attrs self ''zoom_factor'' = Some 5 \<and>
     attrs self ''azimuth'' = Some 0"
  by (simp add: View2D_def ViewMode_def setattr_def push_state_def getattr_def bind_err_def
      constructed_def tracked_def)

lemma View3D_constructed:
  "\<exists>self. View3D = Inr self \<and> constructed self \<and> view_class self = View3D_class \<and>
     state_stack self = [0, 180, -20, 1, 0, -20] \<and> attrs self ''x'' = Some 0 \<and>
     attrs self ''y'' = Some 180 \<and> attrs self ''z'' = Some (-20) \<and>
     attrs self ''zoom_factor'' = Some 1 \<and> attrs self ''azimuth'' = Some 0 \<and>
     attrs self ''elevation'' = Some (-20)"
  by (simp add: View3D_def ViewMode_def setattr_def push_state_def getattr_def bind_err_def
      constructed_def tracked_def)


lemma View3D_moved:
  "\<exists>self pushed moved. View3D = Inr self \<and> push_state self = Inr pushed \<and>
     gestures pushed [RotateBy 10 5, PanBy 3 4, ZoomBy 0 1] = Inr moved \<and>
     attrs moved ''x'' = Some 3 \<and> attrs moved ''z'' = Some (-24) \<and>
     attrs moved ''zoom_factor'' = Some 1.2 \<and> attrs moved ''azimuth'' = Some 10 \<and>
     attrs moved ''elevation'' = Some (-25)"
  by (simp add: View3D_def ViewMode_def setattr_def push_state_def getattr_def bind_err_def
      view_rotate_def View3D_rotate_def view_pan_def View3D_pan_def zoom_def ZOOM_MAX_def)

theorem reset_state_restores_pushed_witness:
  "\<exists>self pushed moved restored.
     View3D = Inr self \<and> constructed self \<and>
     push_state self = Inr pushed \<and>
     gestures pushed [RotateBy 10 5, PanBy 3 4, ZoomBy 0 1] = Inr moved \<and>
     attrs moved ''x'' = Some 3 \<and> attrs moved ''z'' = Some (-24) \<and>
     attrs moved ''zoom_factor'' = Some 1.2 \<and> attrs moved ''azimuth'' = Some 10 \<and>
     attrs moved ''elevation'' = Some (-25) \<and>
     reset_state moved = Inr restored \<and>
     attrs restored ''x'' = Some 0 \<and> attrs restored ''y'' = Some 180 \<and>
     attrs restored ''z'' = Some (-20) \<and> attrs restored ''zoom_factor'' = Some 1 \<and>
     attrs restored ''azimuth'' = Some 0 \<and> attrs restored ''elevation'' = Some (-20) \<and>
     length (state_stack restored) = length (state_stack moved) \<and>
     state_stack restored = state_stack pushed"
proof -
  from View3D_constructed obtain self where v: "View3D = Inr self" and c: "constructed self"
    and k: "view_class self = View3D_class"
    and a: "attrs self ''x'' = Some 0" "attrs self ''y'' = Some 180" "attrs self ''z'' = Some (-20)"
      "attrs self ''zoom_factor'' = Some 1" "attrs self ''azimuth'' = Some 0"
      "attrs self ''elevation'' = Some (-20)"
    by blast
  from reset_state_restores_pushed [OF c, of "[RotateBy 10 5, PanBy 3 4, ZoomBy 0 1]"]
  obtain pushed moved restored where p: "push_state self = Inr pushed"
    and m: "gestures pushed [RotateBy 10 5, PanBy 3 4, ZoomBy 0 1] = Inr moved"
    and r: "reset_state moved = Inr restored"
    and t: "\<forall>var \<in> set (tracked (view_class self)). attrs restored var = attrs self var"
    and l: "length (state_stack restored) = length (state_stack moved)"
    and s: "state_stack restored = state_stack pushed"
    by blast
  from View3D_moved obtain self' pushed' moved' where v': "View3D = Inr self'"
    and p': "push_state self' = Inr pushed'"
    and m': "gestures pushed' [RotateBy 10 5, PanBy 3 4, ZoomBy 0 1] = Inr moved'"
    and mv': "attrs moved' ''x'' = Some 3" "attrs moved' ''z'' = Some (-24)"
      "attrs moved' ''zoom_factor'' = Some 1.2" "attrs moved' ''azimuth'' = Some 10"
      "attrs moved' ''elevation'' = Some (-25)"
    by blast
  have "self' = self" using v v' by (metis Inr_inject)
  with p p' have "pushed' = pushed" by (metis Inr_inject)
  with m m' have "moved' = moved" by (metis Inr_inject)
  with mv'
  have mv: "attrs moved ''x'' = Some 3" "attrs moved ''z'' = Some (-24)"
    "attrs moved ''zoom_factor'' = Some 1.2" "attrs moved ''azimuth'' = Some 10"
    "attrs moved ''elevation'' = Some (-25)"
    by simp_all
  from t k a
  have ra: "attrs restored ''x'' = Some 0" "attrs restored ''y'' = Some 180"
    "attrs restored ''z'' = Some (-20)" "attrs restored ''zoom_factor'' = Some 1"
    "attrs restored ''azimuth'' = Some 0" "attrs restored ''elevation'' = Some (-20)"
    by (simp_all add: tracked_def)
  from v c p m mv r ra l s show ?thesis by blast
qed

section \<open>Verification: construction of the toolpath buffers\<close>

lemma length_odd_rows: "length (odd_rows xs) = length xs div 2"
  by (induction xs rule: odd_rows.induct) simp_all

lemma length_repeat_rows: "length (repeat_rows k xs) = k * length xs"
  by (induction xs) (simp_all add: repeat_rows_def)

lemma repeat_rows_3: "repeat_rows 3 xs = concat (map (\<lambda>v. [v, v, v]) xs)"
proof -
  have "replicate 3 = (\<lambda>v :: 'a. [v, v, v])"
    by (rule ext) (simp add: numeral_3_eq_3)
  then show ?thesis by (simp add: repeat_rows_def)
qed

text \<open>The arrow template is not empty, so its rotation never fails.\<close>

lemma add_movement_value:
  "add_movement s m =
     Inr (s\<lparr>vertex_list := vertex_list s @ [point_a m, point_b m],
             arrow_list := arrow_list s @
               map (\<lambda>v. dot v (rotation_matrix (angle m) 0 0 1)) arrow,
             color_list := color_list s @ [movement_color m]\<rparr>)"
  by (simp add: add_movement_def rotate_def arrow_def bind_err_def Let_def)

text \<open>
  The invariant of both loops: two vertices, three arrow rows and one colour for every
  movement seen so far.
\<close>

definition ratio_ok :: "build_state \<Rightarrow> bool" where
  "ratio_ok s \<longleftrightarrow>
     even (length (vertex_list s)) \<and>
     length (arrow_list s) = (length (vertex_list s) div 2) * 3 \<and>
     length (color_list s) = length (vertex_list s) div 2"

text \<open>
  The invariant of the outer loop: the stops are non-decreasing, start at 0 and end at the
  current length of the vertex list.
\<close>

definition stops_ok :: "build_state \<Rightarrow> bool" where
  "stops_ok s \<longleftrightarrow>
     stops s \<noteq> [] \<and> sorted (stops s) \<and> hd (stops s) = 0 \<and>
     last (stops s) = int (length (vertex_list s))"

lemma add_movement_ratio:
  assumes "ratio_ok s"
  shows "\<exists>s'. add_movement s m = Inr s' \<and> ratio_ok s' \<and> stops s' = stops s \<and>
           length (vertex_list s) \<le> length (vertex_list s')"
  using assms
  by (auto simp add: add_movement_value ratio_ok_def arrow_def elim!: evenE)

lemma inner_loop:
  "ratio_ok s \<Longrightarrow>
   \<exists>s'. fold_err add_movement s layer = Inr s' \<and> ratio_ok s' \<and> stops s' = stops s \<and>
      length (vertex_list s) \<le> length (vertex_list s')"
proof (induction layer arbitrary: s)
  case Nil
  then show ?case by simp
next
  case (Cons m layer)
  from add_movement_ratio [OF Cons.prems, of m]
  obtain s1 where a: "add_movement s m = Inr s1" and r1: "ratio_ok s1"
    and st1: "stops s1 = stops s" and g1: "length (vertex_list s) \<le> length (vertex_list s1)"
    by blast
  from Cons.IH [OF r1]
  obtain s2 where b: "fold_err add_movement s1 layer = Inr s2" and r2: "ratio_ok s2"
    and st2: "stops s2 = stops s1" and g2: "length (vertex_list s1) \<le> length (vertex_list s2)"
    by blast
  from a b r2 st1 st2 g1 g2 show ?case
    by (simp add: bind_err_def)
qed

lemma sorted_snoc_last:
  "sorted xs \<Longrightarrow> xs \<noteq> [] \<Longrightarrow> last xs \<le> (x::int) \<Longrightarrow> sorted (xs @ [x])"
proof -
  assume s: "sorted xs" and ne: "xs \<noteq> []" and le: "last xs \<le> x"
  have "y \<le> x" if "y \<in> set xs" for y
  proof -
    from that obtain i where i: "i < length xs" and y: "y = xs ! i"
      by (auto simp add: in_set_conv_nth)
    have "xs ! i \<le> xs ! (length xs - 1)"
      using s i by (intro sorted_nth_mono) simp_all
    with ne le y show ?thesis by (simp add: last_conv_nth)
  qed
  with s show ?thesis by (simp add: sorted_append)
qed

lemma add_layer_built:
  assumes "ratio_ok s" and "stops_ok s"
  shows "\<exists>s'. add_layer s layer = Inr s' \<and> ratio_ok s' \<and> stops_ok s' \<and>
           length (stops s') = Suc (length (stops s))"
proof -
  from inner_loop [OF assms(1), of layer]
  obtain s1 where f: "fold_err add_movement s layer = Inr s1" and r1: "ratio_ok s1"
    and st1: "stops s1 = stops s" and g1: "length (vertex_list s) \<le> length (vertex_list s1)"
    by blast
  let ?s' = "s1\<lparr>stops := stops s1 @ [int (length (vertex_list s1))]\<rparr>"
  have a: "add_layer s layer = Inr ?s'"
    by (simp add: add_layer_def f bind_err_def)
  have "last (stops s) \<le> int (length (vertex_list s1))"
    using assms(2) g1 by (simp add: stops_ok_def)
  with assms(2) have "sorted (stops s @ [int (length (vertex_list s1))])"
    by (intro sorted_snoc_last) (simp_all add: stops_ok_def)
  with assms(2) st1 have ok: "stops_ok ?s'"
    by (simp add: stops_ok_def)
  have r: "ratio_ok ?s'" using r1 by (simp add: ratio_ok_def)
  from a r ok st1 show ?thesis by simp
qed

lemma outer_loop:
  "ratio_ok s \<Longrightarrow> stops_ok s \<Longrightarrow>
   \<exists>s'. fold_err add_layer s model_data = Inr s' \<and> ratio_ok s' \<and> stops_ok s' \<and>
      length (stops s') = length (stops s) + length model_data"
proof (induction model_data arbitrary: s)
  case Nil
  then show ?case by simp
next
  case (Cons layer model_data)
  from add_layer_built [OF Cons.prems, of layer]
  obtain s1 where a: "add_layer s layer = Inr s1" and r1: "ratio_ok s1" and o1: "stops_ok s1"
    and l1: "length (stops s1) = Suc (length (stops s))"
    by blast
  from Cons.IH [OF r1 o1]
  obtain s2 where b: "fold_err add_layer s1 model_data = Inr s2" and r2: "ratio_ok s2"
    and o2: "stops_ok s2" and l2: "length (stops s2) = length (stops s1) + length model_data"
    by blast
  from a b r2 o2 l1 l2 show ?case
    by (simp add: bind_err_def)
qed

lemma build_lists_built:
  "\<exists>s. build_lists model_data = Inr s \<and> ratio_ok s \<and> stops_ok s \<and>
      length (stops s) = length model_data + 1"
  using outer_loop
    [of "\<lparr>vertex_list = [], color_list = [], stops = [0], arrow_list = []\<rparr>" model_data]
  by (simp add: build_lists_def ratio_ok_def stops_ok_def)

text \<open>
  On lists in that ratio neither the sum of the buffers nor the assertion fails, and the
  sum has as many entries in every row as it has rows.
\<close>

lemma finish_arrays_ratio_ok:
  assumes "ratio_ok s"
  shows "\<exists>moved. finish_arrays self s =
             Inr (self\<lparr>vertices := vertex_list s, colors := color_list s,
                       arrows := moved, layer_stops := stops s\<rparr>) \<and>
           length moved = (length (vertex_list s) div 2) * 3 \<and>
           (\<forall>row \<in> set moved. length row = length moved)"
proof (cases "vertex_list s = []")
  case True
  with assms have "arrow_list s = []" by (simp add: ratio_ok_def)
  with True show ?thesis
    by (simp add: finish_arrays_def add_arrays_def bind_err_def)
next
  case False
  with assms have "2 \<le> length (vertex_list s)"
    by (cases "vertex_list s" rule: odd_rows.cases) (auto simp add: ratio_ok_def)
  with assms have ne: "arrow_list s \<noteq> []" by (auto simp add: ratio_ok_def)
  let ?moved = "map (\<lambda>a. map (\<lambda>v. vadd a v) (repeat_rows 3 (odd_rows (vertex_list s))))
                  (arrow_list s)"
  have l: "length ?moved = (length (vertex_list s) div 2) * 3"
    using assms by (simp add: ratio_ok_def)
  have rows: "\<forall>row \<in> set ?moved. length row = length ?moved"
    using assms by (auto simp add: ratio_ok_def length_repeat_rows length_odd_rows)
  have "finish_arrays self s =
      Inr (self\<lparr>vertices := vertex_list s, colors := color_list s,
                arrows := ?moved, layer_stops := stops s\<rparr>)"
    using False ne l by (simp add: finish_arrays_def add_arrays_def bind_err_def)
  with l rows show ?thesis by blast
qed



text \<open>The model that the constructor returns, from the lists that the loops built.\<close>

lemma GcodeModel_built:
  "\<exists>s moved.
     build_lists model_data = Inr s \<and> ratio_ok s \<and> stops_ok s \<and>
     length (stops s) = length model_data + 1 \<and>
     GcodeModel model_data =
       Inr (new_gcode_model\<lparr>vertices := vertex_list s, colors := color_list s,
              arrows := moved, layer_stops := stops s,
              max_layers := int (length (stops s)) - 1,
              num_layers_to_draw := int (length (stops s)) - 1,
              arrows_enabled := True, initialized := False\<rparr>) \<and>
     length moved = (length (vertex_list s) div 2) * 3 \<and>
     (\<forall>row \<in> set moved. length row = length moved)"
proof -
  from build_lists_built [of model_data]
  obtain s where b: "build_lists model_data = Inr s" and r: "ratio_ok s" and o: "stops_ok s"
    and n: "length (stops s) = length model_data + 1"
    by blast
  from finish_arrays_ratio_ok [OF r, of new_gcode_model]
  obtain moved where
    f: "finish_arrays new_gcode_model s =
          Inr (new_gcode_model\<lparr>vertices := vertex_list s, colors := color_list s,
                 arrows := moved, layer_stops := stops s\<rparr>)"
    and l: "length moved = (length (vertex_list s) div 2) * 3"
    and rows: "\<forall>row \<in> set moved. length row = length moved"
    by blast
  have "GcodeModel model_data =
       Inr (new_gcode_model\<lparr>vertices := vertex_list s, colors := color_list s,
              arrows := moved, layer_stops := stops s,
              max_layers := int (length (stops s)) - 1,
              num_layers_to_draw := int (length (stops s)) - 1,
              arrows_enabled := True, initialized := False\<rparr>)"
    by (simp add: GcodeModel_def create_vertex_arrays_def b f bind_err_def)
  with b r o n l rows show ?thesis by blast
qed

text \<open>The fields of a constructed model, without the lists.\<close>

lemma constructed_model:
  "\<exists>m. GcodeModel model_data = Inr m \<and>
      length (arrows m) = (length (vertices m) div 2) * 3 \<and>
      (\<forall>row \<in> set (arrows m). length row = length (arrows m)) \<and>
      length (colors m) = length (vertices m) div 2 \<and>
      layer_stops m \<noteq> [] \<and> sorted (layer_stops m) \<and> hd (layer_stops m) = 0 \<and>
      last (layer_stops m) = int (length (vertices m)) \<and>
      length (layer_stops m) = length model_data + 1 \<and>
      max_layers m = int (length model_data) \<and>
      num_layers_to_draw m = int (length model_data) \<and>
      arrows_enabled m \<and> \<not> initialized m \<and>
      vertex_buffer m = None \<and> vertex_color_buffer m = None \<and>
      arrow_buffer m = None \<and> arrow_color_buffer m = None"
proof -
  from GcodeModel_built [of model_data]
  obtain s moved where r: "ratio_ok s" and o: "stops_ok s"
    and n: "length (stops s) = length model_data + 1"
    and m: "GcodeModel model_data =
       Inr (new_gcode_model\<lparr>vertices := vertex_list s, colors := color_list s,
              arrows := moved, layer_stops := stops s,
              max_layers := int (length (stops s)) - 1,
              num_layers_to_draw := int (length (stops s)) - 1,
              arrows_enabled := True, initialized := False\<rparr>)"
    and l: "length moved = (length (vertex_list s) div 2) * 3"
    and rows: "\<forall>row \<in> set moved. length row = length moved"
    by blast
  from r o n l rows show ?thesis
    unfolding m
    by (intro exI [of _ "new_gcode_model\<lparr>vertices := vertex_list s, colors := color_list s,
              arrows := moved, layer_stops := stops s,
              max_layers := int (length (stops s)) - 1,
              num_layers_to_draw := int (length (stops s)) - 1,
              arrows_enabled := True, initialized := False\<rparr>"])
       (simp add: ratio_ok_def stops_ok_def new_gcode_model_def)
qed

text \<open>
  A scenario: two layers of one movement each, with the extruder on, neither loop nor
  perimeter, travelling along the x axis.
\<close>

definition one_movement :: movement where
  "one_movement =
     \<lparr>point_a = (0, 0, 0), point_b = (1, 0, 0), extruder_on = True, is_loop = False,
      is_perimeter = False, is_perimeter_outer = False, angle = 0\<rparr>"

definition two_layers :: "movement list list" where
  "two_layers = [[one_movement], [one_movement]]"

lemma rotate_arrow_zero: "rotate arrow 0 0 0 1 = Inr arrow"
  by (simp add: rotate_def rotation_matrix_def radians_def dot_def arrow_def)

lemma build_two_layers:
  "build_lists two_layers =
     Inr \<lparr>vertex_list = [(0, 0, 0), (1, 0, 0), (0, 0, 0), (1, 0, 0)],
          color_list = [(1, 0, 0, 0.6), (1, 0, 0, 0.6)],
          stops = [0, 2, 4],
          arrow_list = arrow @ arrow\<rparr>"
  by (simp add: build_lists_def two_layers_def add_layer_def add_movement_def
      one_movement_def rotate_arrow_zero movement_color_def bind_err_def)

lemma two_layers_model:
  "\<exists>m. GcodeModel two_layers = Inr m \<and>
      vertices m = [(0, 0, 0), (1, 0, 0), (0, 0, 0), (1, 0, 0)] \<and>
      colors m = [(1, 0, 0, 0.6), (1, 0, 0, 0.6)] \<and>
      layer_stops m = [0, 2, 4] \<and>
      length (arrows m) = 6 \<and>
      arrows m ! 1 =
        [(1.4, - 0.1, 0), (1.4, - 0.1, 0), (1.4, - 0.1, 0),
         (1.4, - 0.1, 0), (1.4, - 0.1, 0), (1.4, - 0.1, 0)] \<and>
      max_layers m = 2 \<and> num_layers_to_draw m = 2 \<and> arrows_enabled m \<and>
      vertex_buffer m = None \<and> arrow_buffer m = None"
  by (simp add: GcodeModel_def create_vertex_arrays_def finish_arrays_def
      build_two_layers add_arrays_def repeat_rows_3 arrow_def vadd_def bind_err_def
      new_gcode_model_def)



text \<open>
  Claim C2. For every sequence of layers of movements the constructor returns a model whose
  \<open>layer_stops\<close> are non-decreasing, have 0 as first element (\<open>layer_stops[0]\<close>) and the
  length of the vertex buffer as last element (\<open>layer_stops[-1]\<close>), and count one more than
  the layers; \<open>max_layers\<close> is the number of layers.
\<close>

theorem layer_stops_after_construction:
  "\<exists>m. GcodeModel model_data = Inr m \<and>
      sorted (layer_stops m) \<and>
      py_index (layer_stops m) 0 = Inr 0 \<and>
      py_index (layer_stops m) (- 1) = Inr (int (length (vertices m))) \<and>
      length (layer_stops m) = length model_data + 1 \<and>
      max_layers m = int (length model_data)"
proof -
  from constructed_model [of model_data] obtain m where m: "GcodeModel model_data = Inr m"
    and ne: "layer_stops m \<noteq> []"
    and s: "sorted (layer_stops m)"
    and h: "hd (layer_stops m) = 0"
    and l: "last (layer_stops m) = int (length (vertices m))"
    and len: "length (layer_stops m) = length model_data + 1"
    and ml: "max_layers m = int (length model_data)"
    by blast
  have "layer_stops m ! 0 = 0"
    using h hd_conv_nth [OF ne] by simp
  with ne have first: "py_index (layer_stops m) 0 = Inr 0"
    by (simp add: py_index_def)
  have final: "py_index (layer_stops m) (- 1) = Inr (int (length (vertices m)))"
  proof -
    have n: "nat (int (length (layer_stops m)) + - 1) = length (layer_stops m) - 1"
      by simp
    have "layer_stops m ! (length (layer_stops m) - 1) = int (length (vertices m))"
      using l last_conv_nth [OF ne] by simp
    moreover have "0 < length (layer_stops m)" using ne by simp
    ultimately show ?thesis
      using n by (simp add: py_index_def Suc_le_eq)
  qed
  from m s first final len ml show ?thesis
    by blast
qed

theorem layer_stops_after_construction_witness:
  "\<exists>m. GcodeModel two_layers = Inr m \<and> layer_stops m = [0, 2, 4] \<and>
      sorted (layer_stops m) \<and>
      py_index (layer_stops m) 0 = Inr 0 \<and> py_index (layer_stops m) (- 1) = Inr 4 \<and>
      length (vertices m) = 4 \<and> length (layer_stops m) = 3 \<and> max_layers m = 2"
proof -
  from layer_stops_after_construction [of two_layers]
  obtain m where m: "GcodeModel two_layers = Inr m"
    and s: "sorted (layer_stops m)"
    and f: "py_index (layer_stops m) 0 = Inr 0"
    and l: "py_index (layer_stops m) (- 1) = Inr (int (length (vertices m)))"
    and n: "length (layer_stops m) = length two_layers + 1"
    and x: "max_layers m = int (length two_layers)"
    by blast
  from m two_layers_model
  have v: "length (vertices m) = 4" and ls: "layer_stops m = [0, 2, 4]"
    by auto
  from m s f l n x v ls show ?thesis
    by (intro exI [of _ m]) (simp add: two_layers_def)
qed

section \<open>Verification: the layer selector\<close>

text \<open>
  The selector is the attribute \<^verbatim>\<open>num_layers_to_draw\<close>, which the constructor sets to
  the number of layers and the caller assigns afterwards.
\<close>

definition select_layers :: "gcode_model \<Rightarrow> int \<Rightarrow> gcode_model" where
  "select_layers self n = self\<lparr>num_layers_to_draw := n\<rparr>"

text \<open>Construct the model, make its buffer objects, assign the selector, draw.\<close>

definition draw_selected ::
  "movement list list \<Rightarrow> int \<Rightarrow> bool \<Rightarrow> error + (int \<times> int)" where
  "draw_selected model_data n mode_2d =
     bind_err (GcodeModel model_data)
       (\<lambda>self. display_movements (select_layers (init self) n) mode_2d)"

definition draw_selected_arrows :: "movement list list \<Rightarrow> int \<Rightarrow> error + (int \<times> int)" where
  "draw_selected_arrows model_data n =
     bind_err (GcodeModel model_data) (\<lambda>self. display_arrows (select_layers (init self) n))"

lemma init_fields:
  "layer_stops (select_layers (init m) n) = layer_stops m \<and>
   num_layers_to_draw (select_layers (init m) n) = n \<and>
   arrows_enabled (select_layers (init m) n) = arrows_enabled m \<and>
   vertex_buffer (select_layers (init m) n) = Some (vertices m) \<and>
   vertex_color_buffer (select_layers (init m) n) = Some (repeat_rows 2 (colors m)) \<and>
   (arrows_enabled m \<longrightarrow>
      arrow_buffer (select_layers (init m) n) = Some (arrows m) \<and>
      arrow_color_buffer (select_layers (init m) n) = Some (repeat_rows 3 (colors m)))"
  by (simp add: select_layers_def init_def Let_def)

text \<open>
  Against claim C9 as stated: with two layers, the selector 3 is not clamped to 2 but makes
  both drawing methods raise IndexError, and the selector 0 is not clamped to 1 but draws
  from offset 4 with count -4 (\<^verbatim>\<open>layer_stops[-1]\<close> is the last stop).
\<close>

theorem selector_above_range_counterexample:
  "draw_selected two_layers 3 False = Inl IndexError \<and>
   draw_selected two_layers 3 True = Inl IndexError \<and>
   draw_selected_arrows two_layers 3 = Inl IndexError \<and>
   draw_selected two_layers 2 True = Inr (2, 2) \<and>
   draw_selected two_layers 1 True = Inr (0, 2) \<and>
   draw_selected two_layers 0 True = Inr (4, - 4)"
proof -
  from two_layers_model obtain m where m: "GcodeModel two_layers = Inr m"
    and ls: "layer_stops m = [0, 2, 4]" and en: "arrows_enabled m"
    by blast
  have f: "layer_stops (select_layers (init m) n) = [0, 2, 4]"
    "num_layers_to_draw (select_layers (init m) n) = n"
    "vertex_buffer (select_layers (init m) n) \<noteq> None"
    "vertex_color_buffer (select_layers (init m) n) \<noteq> None"
    "arrow_buffer (select_layers (init m) n) \<noteq> None"
    "arrow_color_buffer (select_layers (init m) n) \<noteq> None" for n
    using init_fields [of m n] ls en by simp_all
  show ?thesis
    by (simp add: draw_selected_def draw_selected_arrows_def m bind_err_def
        display_movements_def display_arrows_def py_index_def f)
qed

lemma py_index_in_range:
  "0 \<le> i \<Longrightarrow> i < int (length xs) \<Longrightarrow> py_index xs i = Inr (xs ! nat i)"
  by (simp add: py_index_def)

lemma py_index_above: "int (length xs) \<le> i \<Longrightarrow> py_index xs i = Inl IndexError"
  by (simp add: py_index_def)

lemma sorted_int_nth:
  "sorted (xs :: int list) \<Longrightarrow> 0 \<le> i \<Longrightarrow> i \<le> j \<Longrightarrow> j < int (length xs) \<Longrightarrow>
   xs ! nat i \<le> xs ! nat j"
  by (rule sorted_nth_mono) simp_all

text \<open>
  Claim C9, amended. The constructor sets the selector to the number of layers. Before
  \<^verbatim>\<open>init\<close> has made the buffer objects the drawing methods raise AttributeError. After,
  they use the selector as it is, without clamping. For a selector \<open>n\<close> from 1 to the number
  of layers they raise nothing: the 2D range of vertices is layer \<open>n\<close> alone, the 3D range is
  all layers up to \<open>n\<close>, and both end within the vertex buffer; the arrow range is the 2D
  range scaled by 3/2 and ends within the length of the arrow buffer. A selector above the
  number of layers raises IndexError.
\<close>

theorem selector_used_unclamped:
  assumes "GcodeModel model_data = Inr m"
  shows "num_layers_to_draw m = int (length model_data) \<and>
    display_movements (select_layers m n) mode_2d = Inl AttributeError \<and>
    display_arrows (select_layers m n) = Inl AttributeError \<and>
    vertex_buffer (select_layers (init m) n) = Some (vertices m) \<and>
    arrow_buffer (select_layers (init m) n) = Some (arrows m) \<and>
    (1 \<le> n \<and> n \<le> int (length model_data) \<longrightarrow>
       display_movements (select_layers (init m) n) True =
         Inr (layer_stops m ! nat (n - 1), layer_stops m ! nat n - layer_stops m ! nat (n - 1)) \<and>
       display_movements (select_layers (init m) n) False = Inr (0, layer_stops m ! nat n) \<and>
       0 \<le> layer_stops m ! nat (n - 1) \<and>
       layer_stops m ! nat (n - 1) \<le> layer_stops m ! nat n \<and>
       layer_stops m ! nat n \<le> int (length (vertices m)) \<and>
       display_arrows (select_layers (init m) n) =
         Inr ((layer_stops m ! nat (n - 1) div 2) * 3,
              (layer_stops m ! nat n div 2) * 3 - (layer_stops m ! nat (n - 1) div 2) * 3) \<and>
       0 \<le> (layer_stops m ! nat (n - 1) div 2) * 3 \<and>
       (layer_stops m ! nat (n - 1) div 2) * 3 \<le> (layer_stops m ! nat n div 2) * 3 \<and>
       (layer_stops m ! nat n div 2) * 3 \<le> int (length (arrows m)) \<and>
       display (select_layers (init m) n) True =
         Inr ((layer_stops m ! nat (n - 1),
               layer_stops m ! nat n - layer_stops m ! nat (n - 1)),
              Some ((layer_stops m ! nat (n - 1) div 2) * 3,
                    (layer_stops m ! nat n div 2) * 3 -
                      (layer_stops m ! nat (n - 1) div 2) * 3))) \<and>
    (int (length model_data) < n \<longrightarrow>
       display_movements (select_layers (init m) n) True = Inl IndexError \<and>
       display_movements (select_layers (init m) n) False = Inl IndexError \<and>
       display_arrows (select_layers (init m) n) = Inl IndexError)"
proof -
  from constructed_model [of model_data] assms
  have ne: "layer_stops m \<noteq> []"
    and s: "sorted (layer_stops m)"
    and h: "hd (layer_stops m) = 0"
    and l: "last (layer_stops m) = int (length (vertices m))"
    and len: "length (layer_stops m) = length model_data + 1"
    and nl: "num_layers_to_draw m = int (length model_data)"
    and ratio: "length (arrows m) = (length (vertices m) div 2) * 3"
    and en: "arrows_enabled m"
    and nb: "vertex_buffer m = None" "arrow_buffer m = None"
    by auto
  have first: "layer_stops m ! 0 = 0"
    using h hd_conv_nth [OF ne] by simp
  have final: "layer_stops m ! length model_data = int (length (vertices m))"
    using l last_conv_nth [OF ne] len by simp
  have sel: "layer_stops (select_layers (init m) n) = layer_stops m"
    "num_layers_to_draw (select_layers (init m) n) = n"
    "arrows_enabled (select_layers (init m) n)"
    "vertex_buffer (select_layers (init m) n) = Some (vertices m)"
    "vertex_color_buffer (select_layers (init m) n) = Some (repeat_rows 2 (colors m))"
    "arrow_buffer (select_layers (init m) n) = Some (arrows m)"
    "arrow_color_buffer (select_layers (init m) n) = Some (repeat_rows 3 (colors m))"
    using init_fields [of m n] en by simp_all
  have before: "display_movements (select_layers m n) mode_2d = Inl AttributeError"
    "display_arrows (select_layers m n) = Inl AttributeError"
    using nb by (simp_all add: display_movements_def display_arrows_def select_layers_def)
  have inside:
    "display_movements (select_layers (init m) n) True =
         Inr (layer_stops m ! nat (n - 1), layer_stops m ! nat n - layer_stops m ! nat (n - 1)) \<and>
       display_movements (select_layers (init m) n) False = Inr (0, layer_stops m ! nat n) \<and>
       0 \<le> layer_stops m ! nat (n - 1) \<and>
       layer_stops m ! nat (n - 1) \<le> layer_stops m ! nat n \<and>
       layer_stops m ! nat n \<le> int (length (vertices m)) \<and>
       display_arrows (select_layers (init m) n) =
         Inr ((layer_stops m ! nat (n - 1) div 2) * 3,
              (layer_stops m ! nat n div 2) * 3 - (layer_stops m ! nat (n - 1) div 2) * 3) \<and>
       0 \<le> (layer_stops m ! nat (n - 1) div 2) * 3 \<and>
       (layer_stops m ! nat (n - 1) div 2) * 3 \<le> (layer_stops m ! nat n div 2) * 3 \<and>
       (layer_stops m ! nat n div 2) * 3 \<le> int (length (arrows m)) \<and>
       display (select_layers (init m) n) True =
         Inr ((layer_stops m ! nat (n - 1),
               layer_stops m ! nat n - layer_stops m ! nat (n - 1)),
              Some ((layer_stops m ! nat (n - 1) div 2) * 3,
                    (layer_stops m ! nat n div 2) * 3 -
                      (layer_stops m ! nat (n - 1) div 2) * 3))"
    if a: "1 \<le> n \<and> n \<le> int (length model_data)"
  proof -
    have i1: "py_index (layer_stops m) (n - 1) = Inr (layer_stops m ! nat (n - 1))"
      using a len by (intro py_index_in_range) simp_all
    have i2: "py_index (layer_stops m) n = Inr (layer_stops m ! nat n)"
      using a len by (intro py_index_in_range) simp_all
    have "layer_stops m ! nat 0 \<le> layer_stops m ! nat (n - 1)"
      using s a len by (intro sorted_int_nth) simp_all
    then have lo: "0 \<le> layer_stops m ! nat (n - 1)" using first by simp
    have mid: "layer_stops m ! nat (n - 1) \<le> layer_stops m ! nat n"
      using s a len by (intro sorted_int_nth) simp_all
    have "layer_stops m ! nat n \<le> layer_stops m ! nat (int (length model_data))"
      using s a len by (intro sorted_int_nth) simp_all
    then have hi: "layer_stops m ! nat n \<le> int (length (vertices m))" using final by simp
    have alo: "0 \<le> (layer_stops m ! nat (n - 1) div 2) * 3"
      using lo by simp
    have amid: "(layer_stops m ! nat (n - 1) div 2) * 3 \<le> (layer_stops m ! nat n div 2) * 3"
      using mid by (simp add: zdiv_mono1)
    have "layer_stops m ! nat n div 2 \<le> int (length (vertices m)) div 2"
      using hi by (simp add: zdiv_mono1)
    also have "int (length (vertices m)) div 2 = int (length (vertices m) div 2)"
      by (simp add: zdiv_int)
    finally have ahi: "(layer_stops m ! nat n div 2) * 3 \<le> int (length (arrows m))"
      by (simp add: ratio)
    have dm: "display_movements (select_layers (init m) n) True =
         Inr (layer_stops m ! nat (n - 1), layer_stops m ! nat n - layer_stops m ! nat (n - 1))"
      by (simp add: display_movements_def sel i1 i2 bind_err_def)
    have dm3: "display_movements (select_layers (init m) n) False =
         Inr (0, layer_stops m ! nat n)"
      by (simp add: display_movements_def sel i2 bind_err_def)
    have da: "display_arrows (select_layers (init m) n) =
         Inr ((layer_stops m ! nat (n - 1) div 2) * 3,
              (layer_stops m ! nat n div 2) * 3 - (layer_stops m ! nat (n - 1) div 2) * 3)"
      by (simp add: display_arrows_def sel i1 i2 bind_err_def Let_def)
    have dd: "display (select_layers (init m) n) True =
         Inr ((layer_stops m ! nat (n - 1),
               layer_stops m ! nat n - layer_stops m ! nat (n - 1)),
              Some ((layer_stops m ! nat (n - 1) div 2) * 3,
                    (layer_stops m ! nat n div 2) * 3 -
                      (layer_stops m ! nat (n - 1) div 2) * 3))"
      by (simp add: display_def dm da sel bind_err_def)
    from dm dm3 lo mid hi da alo amid ahi dd show ?thesis by blast
  qed
  have above:
    "display_movements (select_layers (init m) n) True = Inl IndexError \<and>
       display_movements (select_layers (init m) n) False = Inl IndexError \<and>
       display_arrows (select_layers (init m) n) = Inl IndexError"
    if a: "int (length model_data) < n"
  proof -
    have i2: "py_index (layer_stops m) n = Inl IndexError"
      using a len by (intro py_index_above) simp
    have "py_index (layer_stops m) (n - 1) = Inr (layer_stops m ! nat (n - 1)) \<or>
        py_index (layer_stops m) (n - 1) = Inl IndexError"
      using a by (simp add: py_index_def)
    then show ?thesis
      by (auto simp add: display_movements_def display_arrows_def sel i2 bind_err_def)
  qed
  from nl before sel(4) sel(6) inside above show ?thesis by blast
qed

theorem selector_used_unclamped_witness:
  "\<exists>m. GcodeModel two_layers = Inr m \<and>
      num_layers_to_draw m = 2 \<and>
      display_movements (select_layers m 2) True = Inl AttributeError \<and>
      length (vertices m) = 4 \<and> length (arrows m) = 6 \<and>
      display_movements (select_layers (init m) 1) True = Inr (0, 2) \<and>
      display_movements (select_layers (init m) 2) True = Inr (2, 2) \<and>
      display_movements (select_layers (init m) 2) False = Inr (0, 4) \<and>
      display_arrows (select_layers (init m) 2) = Inr (3, 3) \<and>
      display (select_layers (init m) 2) True = Inr ((2, 2), Some (3, 3)) \<and>
      display_movements (select_layers (init m) 3) False = Inl IndexError \<and>
      display_arrows (select_layers (init m) 3) = Inl IndexError"
proof -
  from two_layers_model obtain m where m: "GcodeModel two_layers = Inr m"
    and ls: "layer_stops m = [0, 2, 4]"
    and lv: "vertices m = [(0, 0, 0), (1, 0, 0), (0, 0, 0), (1, 0, 0)]"
    and la: "length (arrows m) = 6"
    by blast
  have n: "int (length two_layers) = 2" by (simp add: two_layers_def)
  from selector_used_unclamped [OF m, of 1 True] selector_used_unclamped [OF m, of 2 True]
    selector_used_unclamped [OF m, of 3 True]
  have "num_layers_to_draw m = 2"
    and "display_movements (select_layers m 2) True = Inl AttributeError"
    and "display_movements (select_layers (init m) 1) True = Inr (0, 2)"
    and "display_movements (select_layers (init m) 2) True = Inr (2, 2)"
    and "display_movements (select_layers (init m) 2) False = Inr (0, 4)"
    and "display_arrows (select_layers (init m) 2) = Inr (3, 3)"
    and "display (select_layers (init m) 2) True = Inr ((2, 2), Some (3, 3))"
    and "display_movements (select_layers (init m) 3) False = Inl IndexError"
    and "display_arrows (select_layers (init m) 3) = Inl IndexError"
    by (simp_all add: n ls)
  with m lv la show ?thesis by (intro exI [of _ m]) simp
qed

section \<open>Verification: rotation about a zero-length axis\<close>







section \<open>Verification: the saved bounding box\<close>

text \<open>
  The saved box is never stale: there is none, or it is the box of the current vertex
  buffer.
\<close>

definition cache_fresh :: "'a model_scheme \<Rightarrow> bool" where
  "cache_fresh self =
     (case bounding_box_cache self of
        None \<Rightarrow> True
      | Some box \<Rightarrow> calculate_bounding_box self = Inr box)"

text \<open>Read the bounding box, then call \<open>scale\<close> on the model that holds it.\<close>

definition read_then_scale :: "float_ops \<Rightarrow> stl_model \<Rightarrow> real \<Rightarrow> error + stl_model" where
  "read_then_scale ops self factor =
     bind_err (bounding_box self) (\<lambda>r. scale ops (snd r) factor)"

text \<open>A mesh of one triangle, as the constructor leaves it.\<close>

definition small_mesh :: stl_model where
  "small_mesh =
     StlModel ([(1, 2, 3), (4, 5, 6), (7, 8, 10)], [(0, 0, 1), (0, 0, 1), (0, 0, 1)])"

lemma row_min_Min: "xs \<noteq> [] \<Longrightarrow> row_min xs = Inr (Min (set xs))"
proof (cases xs)
  case Nil
  assume "xs \<noteq> []"
  with Nil show ?thesis by simp
next
  case (Cons a list)
  have "fold min list a = Min (set (a # list))" by (rule Min.set_eq_fold [symmetric])
  with Cons show ?thesis by (simp del: set_simps)
qed

lemma row_max_Max: "xs \<noteq> [] \<Longrightarrow> row_max xs = Inr (Max (set xs))"
proof (cases xs)
  case Nil
  assume "xs \<noteq> []"
  with Nil show ?thesis by simp
next
  case (Cons a list)
  have "fold max list a = Max (set (a # list))" by (rule Max.set_eq_fold [symmetric])
  with Cons show ?thesis by (simp del: set_simps)
qed

text \<open>
  The box the specification describes: per axis, the largest and the smallest coordinate of
  the buffer.
\<close>

definition axis_box :: "vertex list \<Rightarrow> bounding_box" where
  "axis_box vs =
     \<lparr>upper_corner = (Max (fst ` set vs),
                       Max ((\<lambda>v. fst (snd v)) ` set vs),
                       Max ((\<lambda>v. snd (snd v)) ` set vs)),
      lower_corner = (Min (fst ` set vs),
                       Min ((\<lambda>v. fst (snd v)) ` set vs),
                       Min ((\<lambda>v. snd (snd v)) ` set vs))\<rparr>"

lemma calculate_bounding_box_nonempty:
  assumes "vertices self \<noteq> []"
  shows "calculate_bounding_box self = Inr (axis_box (vertices self))"
proof -
  have ne: "map f (vertices self) \<noteq> []" for f :: "vertex \<Rightarrow> real"
    using assms by simp
  show ?thesis
    by (simp add: calculate_bounding_box_def xyz_rows_def rows_min_def rows_max_def
        row_min_Min [OF ne] row_max_Max [OF ne] bind_err_def Let_def axis_box_def)
qed

lemma calculate_bounding_box_empty:
  "vertices self = [] \<Longrightarrow> calculate_bounding_box self = Inl ValueError"
  by (simp add: calculate_bounding_box_def xyz_rows_def rows_min_def bind_err_def)

lemma calculate_bounding_box_cache_update:
  "calculate_bounding_box (self\<lparr>bounding_box_cache := c\<rparr>) = calculate_bounding_box self"
  by (simp add: calculate_bounding_box_def)

lemma bounding_box_fresh:
  assumes "cache_fresh self" and "bounding_box self = Inr (box, self')"
  shows "calculate_bounding_box self = Inr box \<and> vertices self' = vertices self \<and>
         bounding_box_cache self' = Some box \<and> cache_fresh self'"
proof (cases "bounding_box_cache self")
  case None
  with assms(2) show ?thesis
    by (auto simp add: bounding_box_def bind_err_def cache_fresh_def
        calculate_bounding_box_cache_update split: sum.splits)
next
  case (Some b)
  with assms show ?thesis
    by (auto simp add: bounding_box_def cache_fresh_def)
qed

lemma translate_clears:
  "(vertices self \<noteq> [] \<longrightarrow>
      (\<exists>moved. StlModel_translate self x y z = Inr moved \<and> bounding_box_cache moved = None)) \<and>
   (StlModel_translate self x y z = Inr self' \<longrightarrow> bounding_box_cache self' = None)"
  by (auto simp add: StlModel_translate_def translate_def init_model_attributes_def
      bind_err_def split: if_splits)

lemma rotate_clears:
  "(vertices self \<noteq> [] \<longrightarrow>
      (\<exists>turned. StlModel_rotate self ang x y z = Inr turned \<and>
         bounding_box_cache turned = None)) \<and>
   (StlModel_rotate self ang x y z = Inr self' \<longrightarrow> bounding_box_cache self' = None)"
  by (auto simp add: StlModel_rotate_def rotate_def init_model_attributes_def
      bind_err_def split: if_splits)

lemma scale_clears:
  "scale ops self factor = Inr self' \<Longrightarrow> bounding_box_cache self' = None \<or> self' = self"
  by (auto simp add: scale_def init_model_attributes_def split: if_splits)

lemma mutate_clears:
  "mutate ops self op = Inr self' \<Longrightarrow> bounding_box_cache self' = None \<or> self' = self"
proof (cases op)
  case (Scale factor)
  assume "mutate ops self op = Inr self'"
  with Scale show ?thesis using scale_clears [of ops self factor self'] by simp
next
  case (Translate x y z)
  assume "mutate ops self op = Inr self'"
  with Translate show ?thesis using translate_clears [of self x y z self'] by simp
next
  case (Rotate ang x y z)
  assume "mutate ops self op = Inr self'"
  with Rotate show ?thesis using rotate_clears [of self ang x y z self'] by simp
qed

lemma mutate_keeps_fresh:
  assumes "cache_fresh self" and "mutate ops self op = Inr self'"
  shows "cache_fresh self'"
  using mutate_clears [OF assms(2)] assms(1) by (auto simp add: cache_fresh_def)

text \<open>
  Against claim C4 as stated: a model with an empty vertex buffer (a toolpath without
  layers, a mesh without triangles) has no saved box, and reading \<open>bounding_box\<close> raises
  ValueError instead of returning a box; and a call of \<open>scale\<close> with the current scaling
  factor returns with the saved box still in place.
\<close>

theorem empty_model_bounding_box_counterexample:
  "bind_err (GcodeModel []) bounding_box = Inl ValueError \<and>
   bounding_box (StlModel ([], [])) = Inl ValueError \<and>
   (\<forall>ops. map_sum id bounding_box_cache (read_then_scale ops small_mesh 1.0) =
     Inr (Some \<lparr>upper_corner = (7, 8, 10), lower_corner = (1, 2, 3)\<rparr>))"
proof -
  have a: "GcodeModel [] =
      Inr (new_gcode_model\<lparr>layer_stops := [0], arrows_enabled := True\<rparr>)"
    by (simp add: GcodeModel_def create_vertex_arrays_def finish_arrays_def build_lists_def
        add_arrays_def bind_err_def new_gcode_model_def)
  have b: "bind_err (GcodeModel []) bounding_box = Inl ValueError"
    by (simp add: a bind_err_def bounding_box_def new_gcode_model_def
        calculate_bounding_box_empty)
  have c: "bounding_box (StlModel ([], [])) = Inl ValueError"
    by (simp add: bounding_box_def StlModel_def calculate_bounding_box_empty bind_err_def)
  have d: "map_sum id bounding_box_cache (read_then_scale ops small_mesh 1.0) =
     Inr (Some \<lparr>upper_corner = (7, 8, 10), lower_corner = (1, 2, 3)\<rparr>)" for ops
    by (simp add: read_then_scale_def small_mesh_def StlModel_def bounding_box_def
        calculate_bounding_box_def xyz_rows_def rows_min_def rows_max_def bind_err_def
        scale_def)
  from b c d show ?thesis by blast
qed

text \<open>
  Claim C4, amended. For every geometry model with a vertex buffer that is not empty, reading
  \<open>bounding_box\<close> when no box is saved computes the box from the current buffer by per-axis
  maximum and minimum, saves it and returns it; a saved box is returned as it is.
  On such a model \<open>translate\<close> and \<open>rotate\<close> return, and they and \<open>scale\<close> with a factor
  other than the current one clear the saved box before they return; \<open>scale\<close> with the
  current factor changes nothing at all.
  So after any of the three calls a read of \<open>bounding_box\<close> that returns a box returns the
  box of the buffer as the call left it, never one computed from the buffer before the call.
\<close>

theorem bounding_box_never_stale:
  "(bounding_box_cache geo = None \<and> vertices geo \<noteq> [] \<longrightarrow>
      bounding_box geo =
        Inr (axis_box (vertices geo),
             geo\<lparr>bounding_box_cache := Some (axis_box (vertices geo))\<rparr>)) \<and>
   (bounding_box_cache geo = Some saved \<longrightarrow> bounding_box geo = Inr (saved, geo)) \<and>
   (vertices self \<noteq> [] \<longrightarrow>
      (\<exists>moved. StlModel_translate self x y z = Inr moved \<and> bounding_box_cache moved = None)) \<and>
   (StlModel_translate self x y z = Inr self' \<longrightarrow> bounding_box_cache self' = None) \<and>
   (vertices self \<noteq> [] \<longrightarrow>
      (\<exists>turned. StlModel_rotate self ang x y z = Inr turned \<and>
         bounding_box_cache turned = None)) \<and>
   (StlModel_rotate self ang x y z = Inr self' \<longrightarrow> bounding_box_cache self' = None) \<and>
   (factor \<noteq> scaling_factor self \<and> scale ops self factor = Inr self' \<longrightarrow>
      bounding_box_cache self' = None) \<and>
   (factor = scaling_factor self \<longrightarrow> scale ops self factor = Inr self) \<and>
   (cache_fresh self \<and> mutate ops self op = Inr self' \<and>
    bounding_box self' = Inr (box, self'') \<longrightarrow>
      calculate_bounding_box self' = Inr box \<and> cache_fresh self'')"
proof -
  have a: "bounding_box_cache geo = None \<and> vertices geo \<noteq> [] \<longrightarrow>
      bounding_box geo =
        Inr (axis_box (vertices geo),
             geo\<lparr>bounding_box_cache := Some (axis_box (vertices geo))\<rparr>)"
    by (simp add: bounding_box_def calculate_bounding_box_nonempty bind_err_def)
  have b: "bounding_box_cache geo = Some saved \<longrightarrow> bounding_box geo = Inr (saved, geo)"
    by (simp add: bounding_box_def)
  have c: "factor \<noteq> scaling_factor self \<and> scale ops self factor = Inr self' \<longrightarrow>
      bounding_box_cache self' = None"
    by (auto simp add: scale_def init_model_attributes_def split: if_splits)
  have d: "factor = scaling_factor self \<longrightarrow> scale ops self factor = Inr self"
    by (simp add: scale_def)
  have e: "cache_fresh self \<and> mutate ops self op = Inr self' \<and>
    bounding_box self' = Inr (box, self'') \<longrightarrow>
      calculate_bounding_box self' = Inr box \<and> cache_fresh self''"
  proof
    assume h: "cache_fresh self \<and> mutate ops self op = Inr self' \<and>
      bounding_box self' = Inr (box, self'')"
    then have "cache_fresh self'" by (blast intro: mutate_keeps_fresh)
    from bounding_box_fresh [OF this] h
    show "calculate_bounding_box self' = Inr box \<and> cache_fresh self''"
      by blast
  qed
  from a b translate_clears [of self x y z self'] rotate_clears [of self ang x y z self'] c d e
  show ?thesis by (intro conjI) blast+
qed

theorem bounding_box_never_stale_witness:
  "bounding_box_cache small_mesh = None \<and> vertices small_mesh \<noteq> [] \<and>
   cache_fresh small_mesh \<and>
   (\<forall>ops. \<exists>read moved again.
      bounding_box small_mesh =
        Inr (\<lparr>upper_corner = (7, 8, 10), lower_corner = (1, 2, 3)\<rparr>, read) \<and>
      bounding_box_cache read = Some \<lparr>upper_corner = (7, 8, 10), lower_corner = (1, 2, 3)\<rparr> \<and>
      mutate ops read (Translate 1 1 1) = Inr moved \<and>
      bounding_box_cache moved = None \<and>
      bounding_box moved =
        Inr (\<lparr>upper_corner = (8, 9, 11), lower_corner = (2, 3, 4)\<rparr>, again) \<and>
      calculate_bounding_box moved =
        Inr \<lparr>upper_corner = (8, 9, 11), lower_corner = (2, 3, 4)\<rparr> \<and>
      cache_fresh again)"
proof -
  let ?box = "\<lparr>upper_corner = (7, 8, 10), lower_corner = (1, 2, 3)\<rparr>"
  let ?box' = "\<lparr>upper_corner = (8, 9, 11), lower_corner = (2, 3, 4)\<rparr>"
  define read where "read = small_mesh\<lparr>bounding_box_cache := Some ?box\<rparr>"
  define moved where
    "moved = read\<lparr>vertices := [(2, 3, 4), (5, 6, 7), (8, 9, 11)], bounding_box_cache := None\<rparr>"
  define again where "again = moved\<lparr>bounding_box_cache := Some ?box'\<rparr>"
  have c: "bounding_box_cache small_mesh = None"
    and v: "vertices small_mesh = [(1, 2, 3), (4, 5, 6), (7, 8, 10)]"
    by (simp_all add: small_mesh_def StlModel_def)
  have ne: "vertices small_mesh \<noteq> []" by (simp add: v)
  have f: "cache_fresh small_mesh" by (simp add: cache_fresh_def c)
  have ab: "axis_box (vertices small_mesh) = ?box"
    by (simp add: v axis_box_def)
  have "bounding_box small_mesh =
      Inr (axis_box (vertices small_mesh),
           small_mesh\<lparr>bounding_box_cache := Some (axis_box (vertices small_mesh))\<rparr>)"
    using bounding_box_never_stale [where geo = small_mesh] c ne by blast
  then have r: "bounding_box small_mesh = Inr (?box, read)"
    by (simp add: ab read_def)
  have rc: "bounding_box_cache read = Some ?box" by (simp add: read_def)
  have fr: "cache_fresh read"
    using calculate_bounding_box_nonempty [OF ne]
    by (simp add: cache_fresh_def read_def calculate_bounding_box_cache_update ab)
  have m: "mutate ops read (Translate 1 1 1) = Inr moved" for ops
    by (simp add: moved_def read_def v StlModel_translate_def init_model_attributes_def
        translate_def vadd_def bind_err_def)
  then have t: "StlModel_translate read 1 1 1 = Inr moved"
    by simp
  have mc: "bounding_box_cache moved = None"
    using bounding_box_never_stale
      [where self = read and x = 1 and y = 1 and z = 1 and self' = moved] t
    by blast
  have mv: "vertices moved = [(2, 3, 4), (5, 6, 7), (8, 9, 11)]"
    by (simp add: moved_def)
  have ab': "axis_box (vertices moved) = ?box'"
    by (simp add: mv axis_box_def)
  have ne': "vertices moved \<noteq> []" by (simp add: mv)
  have "bounding_box moved =
      Inr (axis_box (vertices moved),
           moved\<lparr>bounding_box_cache := Some (axis_box (vertices moved))\<rparr>)"
    using bounding_box_never_stale [where geo = moved] mc ne' by blast
  then have b: "bounding_box moved = Inr (?box', again)"
    by (simp add: ab' again_def)
  have "calculate_bounding_box moved = Inr ?box' \<and> cache_fresh again"
    using bounding_box_never_stale
      [where self = read and op = "Translate 1 1 1" and self' = moved and box = ?box'
        and self'' = again]
      fr m b
    by blast
  with r rc m mc b
  have "\<exists>read moved again.
      bounding_box small_mesh = Inr (?box, read) \<and>
      bounding_box_cache read = Some ?box \<and>
      mutate ops read (Translate 1 1 1) = Inr moved \<and>
      bounding_box_cache moved = None \<and>
      bounding_box moved = Inr (?box', again) \<and>
      calculate_bounding_box moved = Inr ?box' \<and>
      cache_fresh again" for ops
    by blast
  with c ne f show ?thesis by blast
qed
section \<open>Verification: relative scaling of a mesh\<close>


subsection \<open>Binary floating-point arithmetic\<close>



















subsection \<open>The round trip\<close>








end
